theory Spec2Isabelle
  imports
    Complex_Main
    "HOL-Library.AList"
    "HOL-Library.Sublist"
    "HOL-Library.Product_Lexorder"
    "HOL-Library.Multiset"
begin

section \<open>Values, exceptions and the JSON libraries\<close>

text \<open>
  The backend is C#. Strings are modelled as \<^typ>\<open>string\<close> (8-bit characters, so the model
  covers ASCII text), \<open>int\<close> and \<open>long\<close> as mathematical integers with the range
  checks of the conversions written out, and a \<open>double\<close> by the real number it denotes:
  the service never computes with a double taken from a row, it only stores and returns it.
  A \<open>Guid\<close> is an opaque identifier and a \<open>DateTime\<close> a tick count.
\<close>

type_synonym double = real
type_synonym Guid = nat
type_synonym DateTime = int

text \<open>
  The conversion of a \<open>long\<close> to a \<open>double\<close>: a double has 53 significant bits, so
  the conversion is exact up to \<open>2^53\<close> and beyond that gives the nearest double, the
  one with an even significand when two are equally near.
\<close>

function bit_length :: "int \<Rightarrow> nat" where
  "bit_length n = (if n \<le> 0 then 0 else Suc (bit_length (n div 2)))"
  by pat_completeness auto

termination
  by (relation "measure nat") auto

declare bit_length.simps [simp del]

definition Int64_ToDouble :: "int \<Rightarrow> double" where
  "Int64_ToDouble n =
     (let a = \<bar>n\<bar>;
          e = bit_length a - 53;
          q = a div 2 ^ e;
          r = a mod 2 ^ e;
          m = (if 2 ^ e < 2 * r \<or> (2 * r = 2 ^ e \<and> odd q) then q + 1 else q)
      in of_int (sgn n * (m * 2 ^ e)))"

text \<open>Every \<open>throw\<close> of the source and of the libraries it calls is a value of this type.\<close>

datatype exn =
    JsonReaderException
  | InvalidCastException
  | FormatException
  | OverflowException
  | IndexOutOfRangeException
  | NullReferenceException
  | InvalidOperationException
  | SqlException
  | DbUpdateException nat

text \<open>
  A .NET \<open>object\<close> that is \<open>null\<close> or a boxed string, long, double or bool: the values
  of a decoded or converted row (\<open>Dictionary<string, object>\<close>).
\<close>

datatype "value" = VNull | VString string | VLong int | VDouble double | VBool bool

text \<open>
  A dictionary is an association list in enumeration order; \<open>d[k] = v\<close> is
  \<^const>\<open>AList.update\<close>, which replaces the value of a key in place and appends a new key.
\<close>

type_synonym ('k, 'v) Dictionary = "('k \<times> 'v) list"

text \<open>
  Newtonsoft's \<open>JToken\<close>. \<open>JOther\<close> stands for the remaining token types (Date, Guid,
  Uri, Raw, ...) and carries the token's text.
\<close>

datatype JToken =
    JObject "(string \<times> JToken) list"
  | JArray "JToken list"
  | JString string
  | JInteger int
  | JFloat double
  | JBoolean bool
  | JNull
  | JOther string

text \<open>
  \<open>System.Text.Json.JsonElement\<close>, seen through the accessors the service calls:
  its \<open>ValueKind\<close>, \<open>GetString()\<close>, \<open>TryGetInt64\<close>, \<open>GetDouble()\<close> and
  \<open>ToString()\<close>. A number carries the result of \<open>TryGetInt64\<close> and of \<open>GetDouble\<close>;
  an object or array carries its raw text.
\<close>

datatype JsonValueKind =
  KUndefined | KObject | KArray | KString | KNumber | KTrue | KFalse | KNull

datatype JsonElement =
    EUndefined
  | EObject string
  | EArray string
  | EString string
  | ENumber "int option" double
  | ETrue
  | EFalse
  | ENull

fun ValueKind :: "JsonElement \<Rightarrow> JsonValueKind" where
  "ValueKind EUndefined = KUndefined"
| "ValueKind (EObject _) = KObject"
| "ValueKind (EArray _) = KArray"
| "ValueKind (EString _) = KString"
| "ValueKind (ENumber _ _) = KNumber"
| "ValueKind ETrue = KTrue"
| "ValueKind EFalse = KFalse"
| "ValueKind ENull = KNull"

text \<open>\<open>GetString()\<close> is the string of a String element and \<open>null\<close> for a Null element.\<close>

fun GetString :: "JsonElement \<Rightarrow> string option" where
  "GetString (EString s) = Some s"
| "GetString _ = None"

text \<open>\<open>ToString()\<close> of an element: the string itself, or the raw JSON text.\<close>

fun JsonElement_ToString :: "JsonElement \<Rightarrow> string option" where
  "JsonElement_ToString (EObject raw) = Some raw"
| "JsonElement_ToString (EArray raw) = Some raw"
| "JsonElement_ToString (EString s) = Some s"
| "JsonElement_ToString _ = Some []"

text \<open>
  The library functions whose code is not part of the repository are parameters of the model:
  \<^item> \<open>JObject_Parse\<close>: \<open>JObject.Parse\<close>, the properties of the parsed object, or the
    exception it throws (also when the text is JSON but not an object);
  \<^item> \<open>JToken_ToString\<close>: \<open>JToken.ToString()\<close>;
  \<^item> \<open>ChangeType_Int32\<close>, \<open>ChangeType_String\<close>, \<open>ChangeType_Double\<close>:
    \<open>System.Convert.ChangeType\<close> on the content of a scalar token of another type
    (a numeric string read as a number, a number read as a string, ...);
  \<^item> \<open>Double_ToJson\<close>: the text \<open>JsonConvert\<close> writes for a double;
  \<^item> \<open>DeserializeObject_ListString\<close>: \<open>JsonConvert.DeserializeObject<List<string>>\<close>,
    which gives \<open>null\<close>, a list whose elements may be \<open>null\<close>, or throws;
  \<^item> \<open>Culture_ToLower\<close>: \<open>char.ToLower\<close> under the current culture, on the
    characters whose lower case depends on the culture.
\<close>

record lib =
  JObject_Parse :: "string \<Rightarrow> exn + (string \<times> JToken) list"
  JToken_ToString :: "JToken \<Rightarrow> string"
  ChangeType_Int32 :: "JToken \<Rightarrow> exn + int"
  ChangeType_String :: "JToken \<Rightarrow> exn + string"
  ChangeType_Double :: "JToken \<Rightarrow> exn + double"
  Double_ToJson :: "double \<Rightarrow> string"
  DeserializeObject_ListString :: "string \<Rightarrow> exn + (string option list) option"
  Culture_ToLower :: "char \<Rightarrow> char"

section \<open>Row codec: LegacyDataConverter\<close>

text \<open>
  \<open>token.Value<T>()\<close>: a scalar token of the requested type gives its content, a
  \<open>null\<close> token gives \<open>null\<close> for a reference type and throws for a value type, an
  object or array throws, and any other scalar goes through \<open>Convert.ChangeType\<close>.
  An Integer token holds a \<open>long\<close>, or a \<open>BigInteger\<close> when the number is outside
  the 64-bit range: \<open>Convert.ChangeType\<close> throws an \<open>OverflowException\<close> for a
  \<open>long\<close> outside the range of the target, and an \<open>InvalidCastException\<close> for a
  \<open>BigInteger\<close>, which is not \<open>IConvertible\<close>.
\<close>

definition is_Int32 :: "int \<Rightarrow> bool" where
  "is_Int32 n = (- 2147483648 \<le> n \<and> n \<le> 2147483647)"

definition is_Int64 :: "int \<Rightarrow> bool" where
  "is_Int64 n = (- 9223372036854775808 \<le> n \<and> n \<le> 9223372036854775807)"

definition Value_int :: "lib \<Rightarrow> JToken \<Rightarrow> exn + int" where
  "Value_int lib t =
     (case t of
        JInteger n \<Rightarrow>
          (if is_Int32 n then Inr n
           else if is_Int64 n then Inl OverflowException
           else Inl InvalidCastException)
      | JNull \<Rightarrow> Inl InvalidCastException
      | JObject _ \<Rightarrow> Inl InvalidCastException
      | JArray _ \<Rightarrow> Inl InvalidCastException
      | _ \<Rightarrow> ChangeType_Int32 lib t)"

definition Value_long :: "int \<Rightarrow> exn + int" where
  "Value_long n = (if is_Int64 n then Inr n else Inl InvalidCastException)"

definition Value_string :: "lib \<Rightarrow> JToken \<Rightarrow> exn + string option" where
  "Value_string lib t =
     (case t of
        JString s \<Rightarrow> Inr (Some s)
      | JNull \<Rightarrow> Inr None
      | JObject _ \<Rightarrow> Inl InvalidCastException
      | JArray _ \<Rightarrow> Inl InvalidCastException
      | _ \<Rightarrow> (case ChangeType_String lib t of Inl e \<Rightarrow> Inl e | Inr s \<Rightarrow> Inr (Some s)))"

definition Value_double :: "lib \<Rightarrow> JToken \<Rightarrow> exn + double" where
  "Value_double lib t =
     (case t of
        JFloat d \<Rightarrow> Inr d
      | JInteger n \<Rightarrow>
          (if is_Int64 n then Inr (Int64_ToDouble n) else Inl InvalidCastException)
      | JNull \<Rightarrow> Inl InvalidCastException
      | JObject _ \<Rightarrow> Inl InvalidCastException
      | JArray _ \<Rightarrow> Inl InvalidCastException
      | _ \<Rightarrow> ChangeType_Double lib t)"

text \<open>\<open>token["name"]\<close> on an object: the property's value, \<open>null\<close> when there is none.\<close>

definition Item :: "(string \<times> JToken) list \<Rightarrow> string \<Rightarrow> JToken option" where
  "Item props name = map_of props name"

definition IsNullOrEmpty :: "string option \<Rightarrow> bool" where
  "IsNullOrEmpty s = (case s of None \<Rightarrow> True | Some t \<Rightarrow> t = [])"

text \<open>The \<open>switch (valueKind)\<close> of \<open>ConvertLegacyValue\<close>, on a tagged object.\<close>

definition ConvertTagged :: "lib \<Rightarrow> (string \<times> JToken) list \<Rightarrow> int \<Rightarrow> exn + value" where
  "ConvertTagged lib props valueKind =
     (if valueKind = 3 then
        (case Item props ''Value'' of
           None \<Rightarrow> Inr (VString ''N/A'')
         | Some v \<Rightarrow>
             (case Value_string lib v of
                Inl e \<Rightarrow> Inl e
              | Inr stringValue \<Rightarrow>
                  Inr (VString (if \<not> IsNullOrEmpty stringValue then the stringValue
                                else ''N/A''))))
      else if valueKind = 4 then
        (case Item props ''Value'' of
           None \<Rightarrow> Inr (VDouble 0)
         | Some v \<Rightarrow>
             (case Value_double lib v of Inl e \<Rightarrow> Inl e | Inr d \<Rightarrow> Inr (VDouble d)))
      else if valueKind = 5 then Inr (VBool True)
      else if valueKind = 6 then Inr (VBool False)
      else if valueKind = 7 then Inr (VString ''N/A'')
      else Inr (VString ''N/A''))"

definition ConvertLegacyValue :: "lib \<Rightarrow> JToken \<Rightarrow> exn + value" where
  "ConvertLegacyValue lib token =
     (case (case token of JObject props \<Rightarrow> Item props ''ValueKind'' | _ \<Rightarrow> None) of
        Some vk \<Rightarrow>
          (case Value_int lib vk of
             Inl e \<Rightarrow> Inl e
           | Inr valueKind \<Rightarrow>
               ConvertTagged lib (case token of JObject props \<Rightarrow> props | _ \<Rightarrow> []) valueKind)
      | None \<Rightarrow>
          (case token of
             JString s \<Rightarrow> Inr (VString s)
           | JInteger n \<Rightarrow> (case Value_long n of Inl e \<Rightarrow> Inl e | Inr l \<Rightarrow> Inr (VLong l))
           | JFloat d \<Rightarrow> Inr (VDouble d)
           | JBoolean b \<Rightarrow> Inr (VBool b)
           | JNull \<Rightarrow> Inr VNull
           | _ \<Rightarrow> Inr (VString (JToken_ToString lib token))))"

text \<open>
  The \<open>foreach\<close> of \<open>ConvertLegacyData\<close>: it stops at the first property whose
  conversion throws.
\<close>

fun convert_properties ::
  "lib \<Rightarrow> (string \<times> JToken) list \<Rightarrow> (string, value) Dictionary \<Rightarrow>
   exn + (string, value) Dictionary" where
  "convert_properties lib [] result = Inr result"
| "convert_properties lib ((name, v) # ps) result =
     (case ConvertLegacyValue lib v of
        Inl e \<Rightarrow> Inl e
      | Inr val \<Rightarrow> convert_properties lib ps (AList.update name val result))"

text \<open>The body of the \<open>try\<close> block, with the exception it may throw.\<close>

definition ConvertLegacyData_try :: "lib \<Rightarrow> string \<Rightarrow> exn + (string, value) Dictionary" where
  "ConvertLegacyData_try lib jsonString =
     (case JObject_Parse lib jsonString of
        Inl e \<Rightarrow> Inl e
      | Inr props \<Rightarrow> convert_properties lib props [])"

text \<open>\<open>try { ... } catch { return new Dictionary<string, object>(); }\<close>\<close>

definition ConvertLegacyData :: "lib \<Rightarrow> string \<Rightarrow> (string, value) Dictionary" where
  "ConvertLegacyData lib jsonString =
     (case ConvertLegacyData_try lib jsonString of Inl e \<Rightarrow> [] | Inr result \<Rightarrow> result)"

section \<open>Import writer: conversion of incoming cells\<close>

text \<open>
  A cell of an uploaded row is an \<open>object\<close>: a \<open>JsonElement\<close> when the request was bound
  by System.Text.Json, or another .NET value.
\<close>

datatype cell = CElement JsonElement | CObject "value"

text \<open>\<open>x ?? "N/A"\<close> on an object.\<close>

definition or_NA :: "value \<Rightarrow> value" where
  "or_NA v = (case v of VNull \<Rightarrow> VString ''N/A'' | _ \<Rightarrow> v)"

definition string_or_NA :: "string option \<Rightarrow> value" where
  "string_or_NA s = (case s of None \<Rightarrow> VString ''N/A'' | Some t \<Rightarrow> VString t)"

text \<open>
  The arm for a number is \<open>element.TryGetInt64(out var longVal) ? longVal :
  element.GetDouble()\<close>: a conditional expression of a \<open>long\<close> and a \<open>double\<close>
  has the type \<open>double\<close>, so the integer is converted to a double before it is boxed.
  \<open>TryGetInt64\<close> succeeds on the integers of the 64-bit range.
\<close>

fun ConvertJsonElement :: "JsonElement \<Rightarrow> value" where
  "ConvertJsonElement (EString s) = string_or_NA (GetString (EString s))"
| "ConvertJsonElement (ENumber (Some longVal) d) = VDouble (Int64_ToDouble longVal)"
| "ConvertJsonElement (ENumber None d) = VDouble d"
| "ConvertJsonElement ETrue = VBool True"
| "ConvertJsonElement EFalse = VBool False"
| "ConvertJsonElement ENull = VString ''N/A''"
| "ConvertJsonElement EUndefined = VString ''N/A''"
| "ConvertJsonElement element = string_or_NA (JsonElement_ToString element)"

definition convert_cell :: "cell \<Rightarrow> value" where
  "convert_cell c =
     or_NA (case c of CElement jsonElement \<Rightarrow> ConvertJsonElement jsonElement | CObject v \<Rightarrow> v)"

fun ConvertJsonElementsToValues_loop ::
  "(string, cell) Dictionary \<Rightarrow> (string, value) Dictionary \<Rightarrow> (string, value) Dictionary" where
  "ConvertJsonElementsToValues_loop [] convertedRow = convertedRow"
| "ConvertJsonElementsToValues_loop ((k, c) # row) convertedRow =
     ConvertJsonElementsToValues_loop row (AList.update k (convert_cell c) convertedRow)"

definition ConvertJsonElementsToValues ::
  "(string, cell) Dictionary \<Rightarrow> (string, value) Dictionary" where
  "ConvertJsonElementsToValues row = ConvertJsonElementsToValues_loop row []"

section \<open>Entities and the database context\<close>

text \<open>
  The entity classes of \<open>ExcelProcessorAPI.Models\<close>. A record field is a global constant,
  so each property carries the name of its class as a prefix. \<open>CreatedAt\<close> and the computed
  column \<open>RowHash\<close> are left out: no operation of the service reads them.
\<close>

record ImportSession =
  session_Id :: Guid
  session_FileName :: string
  session_FileHash :: "string option"
  session_TotalSheets :: int
  session_ProcessedSheets :: int
  session_ExcludedSheets :: int
  session_TotalRows :: int
  session_ImportedAt :: DateTime
  session_ImportedBy :: "string option"
  session_Status :: string
  session_ProcessingTimeMs :: "int option"

record Sheet =
  sheet_Id :: Guid
  sheet_SessionId :: Guid
  sheet_SheetName :: string
  sheet_SheetIndex :: int
  sheet_RowCount :: int
  sheet_ColumnCount :: int
  sheet_Headers :: string

record SheetData =
  row_Id :: Guid
  row_SheetId :: Guid
  row_RowIndex :: int
  row_RowData :: string

record ExcludedSheet =
  excluded_Id :: Guid
  excluded_SessionId :: Guid
  excluded_SheetName :: string
  excluded_ExclusionReason :: "string option"

text \<open>The tables of \<open>ExcelProcessorContext\<close>, each in storage order.\<close>

record ExcelProcessorContext =
  ImportSessions :: "ImportSession list"
  Sheets :: "Sheet list"
  SheetData :: "SheetData list"
  ExcludedSheets :: "ExcludedSheet list"

section \<open>Query and search layer\<close>

subsection \<open>Headers on the way out\<close>

text \<open>
  \<open>char.ToLower(c)\<close> lower-cases under the current culture. On the ASCII characters
  every culture agrees, but for the capital I: a capital letter becomes the small one, any
  other character stays. What becomes of I (the dotless i under the Turkish and Azerbaijani
  cultures) and of a character beyond ASCII is the culture's, a parameter of the model.
  The characters of the model are 8-bit, so it covers the texts and cultures whose lower
  case is 8-bit too.
\<close>

definition char_ToLower :: "lib \<Rightarrow> char \<Rightarrow> char" where
  "char_ToLower lib c =
     (let n = (of_char c :: nat)
      in if c = CHR ''I'' \<or> 128 \<le> n then Culture_ToLower lib c
         else if 65 \<le> n \<and> n \<le> 90 then char_of (n + 32)
         else c)"

text \<open>
  The lambda \<open>h => char.ToLower(h[0]) + h.Substring(1)\<close>: \<open>h[0]\<close> throws on the empty
  string, and on a \<open>null\<close> element the member access throws.
\<close>

definition lower_first :: "lib \<Rightarrow> string option \<Rightarrow> exn + string" where
  "lower_first lib h =
     (case h of
        None \<Rightarrow> Inl NullReferenceException
      | Some [] \<Rightarrow> Inl IndexOutOfRangeException
      | Some (c # cs) \<Rightarrow> Inr (char_ToLower lib c # cs))"

text \<open>\<open>.Select(f).ToList()\<close> for an \<open>f\<close> that may throw: the first exception ends it.\<close>

fun Select_ToList :: "('a \<Rightarrow> exn + 'b) \<Rightarrow> 'a list \<Rightarrow> exn + 'b list" where
  "Select_ToList f [] = Inr []"
| "Select_ToList f (x # xs) =
     (case f x of
        Inl e \<Rightarrow> Inl e
      | Inr y \<Rightarrow> (case Select_ToList f xs of Inl e \<Rightarrow> Inl e | Inr ys \<Rightarrow> Inr (y # ys)))"

text \<open>
  \<open>JsonConvert.DeserializeObject<List<string>>(s.Headers)?.Select(...).ToList() ?? new()\<close>,
  the expression both detail reads use for the headers.
\<close>

definition headers_out :: "lib \<Rightarrow> string \<Rightarrow> exn + string list" where
  "headers_out lib stored =
     (case DeserializeObject_ListString lib stored of
        Inl e \<Rightarrow> Inl e
      | Inr None \<Rightarrow> Inr []
      | Inr (Some hs) \<Rightarrow> Select_ToList (lower_first lib) hs)"

subsection \<open>Session detail\<close>

record SheetSummaryDto =
  summary_Id :: Guid
  summary_SheetName :: string
  summary_SheetIndex :: int
  summary_RowCount :: int
  summary_ColumnCount :: int
  summary_Headers :: "string list"

record ExcludedSheetDto =
  excludedDto_SheetName :: string
  excludedDto_ExclusionReason :: "string option"

record SessionDataDto =
  detail_Id :: Guid
  detail_FileName :: string
  detail_ImportedAt :: DateTime
  detail_TotalSheets :: int
  detail_ProcessedSheets :: int
  detail_ExcludedSheets :: int
  detail_TotalRows :: int
  detail_Status :: string
  detail_Sheets :: "SheetSummaryDto list"
  detail_ExcludedSheetsList :: "ExcludedSheetDto list"

definition sheet_summary :: "lib \<Rightarrow> Sheet \<Rightarrow> exn + SheetSummaryDto" where
  "sheet_summary lib s =
     (case headers_out lib (sheet_Headers s) of
        Inl e \<Rightarrow> Inl e
      | Inr hs \<Rightarrow>
          Inr \<lparr> summary_Id = sheet_Id s, summary_SheetName = sheet_SheetName s,
                summary_SheetIndex = sheet_SheetIndex s, summary_RowCount = sheet_RowCount s,
                summary_ColumnCount = sheet_ColumnCount s, summary_Headers = hs \<rparr>)"

text \<open>The navigation properties loaded by \<open>Include\<close>.\<close>

definition session_Sheets :: "ExcelProcessorContext \<Rightarrow> Guid \<Rightarrow> Sheet list" where
  "session_Sheets db sessionId = filter (\<lambda>s. sheet_SessionId s = sessionId) (Sheets db)"

definition session_ExcludedSheetsList ::
  "ExcelProcessorContext \<Rightarrow> Guid \<Rightarrow> ExcludedSheet list" where
  "session_ExcludedSheetsList db sessionId =
     filter (\<lambda>es. excluded_SessionId es = sessionId) (ExcludedSheets db)"

definition sheet_SheetDataRows :: "ExcelProcessorContext \<Rightarrow> Guid \<Rightarrow> SheetData list" where
  "sheet_SheetDataRows db sheetId = filter (\<lambda>sd. row_SheetId sd = sheetId) (SheetData db)"

definition GetSessionDataAsync ::
  "lib \<Rightarrow> ExcelProcessorContext \<Rightarrow> Guid \<Rightarrow> exn + SessionDataDto option" where
  "GetSessionDataAsync lib db sessionId =
     (case find (\<lambda>s. session_Id s = sessionId) (ImportSessions db) of
        None \<Rightarrow> Inr None
      | Some session \<Rightarrow>
          (case Select_ToList (sheet_summary lib)
                  (sort_key sheet_SheetIndex (session_Sheets db sessionId)) of
             Inl e \<Rightarrow> Inl e
           | Inr sheets \<Rightarrow>
               Inr (Some
                 \<lparr> detail_Id = session_Id session,
                   detail_FileName = session_FileName session,
                   detail_ImportedAt = session_ImportedAt session,
                   detail_TotalSheets = session_TotalSheets session,
                   detail_ProcessedSheets = session_ProcessedSheets session,
                   detail_ExcludedSheets = session_ExcludedSheets session,
                   detail_TotalRows = session_TotalRows session,
                   detail_Status = session_Status session,
                   detail_Sheets = sheets,
                   detail_ExcludedSheetsList =
                     map (\<lambda>es. \<lparr> excludedDto_SheetName = excluded_SheetName es,
                                 excludedDto_ExclusionReason = excluded_ExclusionReason es \<rparr>)
                       (session_ExcludedSheetsList db sessionId) \<rparr>)))"

subsection \<open>Sheet detail\<close>

record SheetDetailDto =
  sheetDetail_Id :: Guid
  sheetDetail_SheetName :: string
  sheetDetail_SheetIndex :: int
  sheetDetail_Headers :: "string list"
  sheetDetail_Data :: "(string, value) Dictionary list"

definition GetSheetDetailAsync ::
  "lib \<Rightarrow> ExcelProcessorContext \<Rightarrow> Guid \<Rightarrow> exn + SheetDetailDto option" where
  "GetSheetDetailAsync lib db sheetId =
     (case find (\<lambda>s. sheet_Id s = sheetId) (Sheets db) of
        None \<Rightarrow> Inr None
      | Some sheet \<Rightarrow>
          (let data = map (\<lambda>sd. ConvertLegacyData lib (row_RowData sd))
                        (sort_key row_RowIndex (sheet_SheetDataRows db sheetId))
           in case headers_out lib (sheet_Headers sheet) of
                Inl e \<Rightarrow> Inl e
              | Inr hs \<Rightarrow>
                  Inr (Some
                    \<lparr> sheetDetail_Id = sheet_Id sheet,
                      sheetDetail_SheetName = sheet_SheetName sheet,
                      sheetDetail_SheetIndex = sheet_SheetIndex sheet,
                      sheetDetail_Headers = hs,
                      sheetDetail_Data = data \<rparr>)))"

subsection \<open>Paging\<close>

record 'a PagedResponseDto =
  page_Data :: "'a list"
  CurrentPage :: int
  PageSize :: int
  TotalRecords :: int
  TotalPages :: int
  HasNextPage :: bool
  HasPreviousPage :: bool

text \<open>The value of an \<open>int\<close> expression computed without overflow checks.\<close>

definition int32 :: "int \<Rightarrow> int" where
  "int32 x = (x + 2147483648) mod 4294967296 - 2147483648"

text \<open>
  \<open>(int)Math.Ceiling((double)totalRecords / pageSize)\<close>. Both operands are 32-bit integers,
  so the quotient computed in double precision is within \<open>1 / pageSize\<close> of the exact one
  and on the same side of every integer: the ceiling of the exact quotient is what the code
  returns, for a page size other than zero.
\<close>

definition total_pages :: "int \<Rightarrow> int \<Rightarrow> int" where
  "total_pages totalRecords pageSize = \<lceil>real_of_int totalRecords / real_of_int pageSize\<rceil>"

text \<open>
  \<open>.Skip(offset).Take(fetch)\<close> on a query the store evaluates: SQL Server, the provider
  the context configures, rejects a negative \<open>OFFSET\<close> and a \<open>FETCH\<close> that is not positive.
\<close>

definition Skip_Take :: "int \<Rightarrow> int \<Rightarrow> 'a list \<Rightarrow> exn + 'a list" where
  "Skip_Take offset fetch xs =
     (if offset < 0 \<or> fetch \<le> 0 then Inl SqlException
      else Inr (take (nat fetch) (drop (nat offset) xs)))"

definition paged ::
  "'a list \<Rightarrow> int \<Rightarrow> int \<Rightarrow> int \<Rightarrow> 'a PagedResponseDto" where
  "paged data pageNumber pageSize totalRecords =
     (let totalPages = total_pages totalRecords pageSize
      in \<lparr> page_Data = data, CurrentPage = pageNumber, PageSize = pageSize,
            TotalRecords = totalRecords, TotalPages = totalPages,
            HasNextPage = (pageNumber < totalPages),
            HasPreviousPage = (pageNumber > 1) \<rparr>)"

subsection \<open>Session listing\<close>

record SessionListDto =
  list_Id :: Guid
  list_FileName :: string
  list_ImportedAt :: DateTime
  list_TotalSheets :: int
  list_ProcessedSheets :: int
  list_TotalRows :: int
  list_Status :: string

definition session_list_item :: "ImportSession \<Rightarrow> SessionListDto" where
  "session_list_item s =
     \<lparr> list_Id = session_Id s, list_FileName = session_FileName s,
       list_ImportedAt = session_ImportedAt s, list_TotalSheets = session_TotalSheets s,
       list_ProcessedSheets = session_ProcessedSheets s, list_TotalRows = session_TotalRows s,
       list_Status = session_Status s \<rparr>"

definition GetSessionsAsync ::
  "ExcelProcessorContext \<Rightarrow> int \<Rightarrow> int \<Rightarrow> exn + SessionListDto PagedResponseDto" where
  "GetSessionsAsync db pageNumber pageSize =
     (let query = sort_key (\<lambda>s. - session_ImportedAt s) (ImportSessions db);
          totalRecords = int (length query)
      in case Skip_Take (int32 ((pageNumber - 1) * pageSize)) pageSize query of
           Inl e \<Rightarrow> Inl e
         | Inr sessions \<Rightarrow>
             Inr (paged (map session_list_item sessions) pageNumber pageSize totalRecords))"

subsection \<open>Search\<close>

record SearchRequestDto =
  SearchTerm :: string
  search_SessionId :: "Guid option"
  PageNumber :: int
  search_PageSize :: int

record SearchResultDto =
  result_SheetName :: string
  result_RowIndex :: int
  result_RowData :: "(string, value) Dictionary"
  result_FileName :: string
  result_ImportedAt :: DateTime
  result_SessionId :: Guid

text \<open>
  A row with the sheet and the session it belongs to (\<open>Include(sd => sd.Sheet).ThenInclude(s
  => s.Session)\<close>): both references are required foreign keys, so the query joins them.
\<close>

type_synonym joined_row = "SheetData \<times> Sheet \<times> ImportSession"

definition join_row :: "ExcelProcessorContext \<Rightarrow> SheetData \<Rightarrow> joined_row option" where
  "join_row db sd =
     (case find (\<lambda>s. sheet_Id s = row_SheetId sd) (Sheets db) of
        None \<Rightarrow> None
      | Some sheet \<Rightarrow>
          (case find (\<lambda>s. session_Id s = sheet_SessionId sheet) (ImportSessions db) of
             None \<Rightarrow> None
           | Some session \<Rightarrow> Some (sd, sheet, session)))"

text \<open>
  \<open>RowData.Contains(term)\<close>: the term occurs in the stored text. The model compares
  characters exactly; in the store the column's collation decides about case.
\<close>

definition Contains :: "string \<Rightarrow> string \<Rightarrow> bool" where
  "Contains text term = sublist term text"

definition search_query :: "ExcelProcessorContext \<Rightarrow> SearchRequestDto \<Rightarrow> joined_row list" where
  "search_query db searchRequest =
     (let query = filter (\<lambda>(sd, sheet, session). Contains (row_RowData sd) (SearchTerm searchRequest))
                    (List.map_filter (join_row db) (SheetData db))
      in case search_SessionId searchRequest of
           None \<Rightarrow> query
         | Some sessionId \<Rightarrow> filter (\<lambda>(sd, sheet, session). sheet_SessionId sheet = sessionId) query)"

text \<open>
  \<open>OrderByDescending(ImportedAt).ThenBy(SheetIndex).ThenBy(RowIndex)\<close>: one sort on the
  three keys in lexicographic order, the first negated.
\<close>

definition search_key :: "joined_row \<Rightarrow> int \<times> int \<times> int" where
  "search_key j =
     (case j of (sd, sheet, session) \<Rightarrow>
        (- session_ImportedAt session, sheet_SheetIndex sheet, row_RowIndex sd))"

definition search_result :: "lib \<Rightarrow> joined_row \<Rightarrow> SearchResultDto" where
  "search_result lib j =
     (case j of (sd, sheet, session) \<Rightarrow>
        \<lparr> result_SheetName = sheet_SheetName sheet,
          result_RowIndex = row_RowIndex sd,
          result_RowData = ConvertLegacyData lib (row_RowData sd),
          result_FileName = session_FileName session,
          result_ImportedAt = session_ImportedAt session,
          result_SessionId = sheet_SessionId sheet \<rparr>)"

text \<open>The rows of the requested page, before the projection to \<open>SearchResultDto\<close>.\<close>

definition search_page ::
  "ExcelProcessorContext \<Rightarrow> SearchRequestDto \<Rightarrow> exn + joined_row list" where
  "search_page db searchRequest =
     Skip_Take (int32 ((PageNumber searchRequest - 1) * search_PageSize searchRequest))
       (search_PageSize searchRequest)
       (sort_key search_key (search_query db searchRequest))"

definition SearchDataAsync ::
  "lib \<Rightarrow> ExcelProcessorContext \<Rightarrow> SearchRequestDto \<Rightarrow>
   exn + SearchResultDto PagedResponseDto" where
  "SearchDataAsync lib db searchRequest =
     (let totalRecords = int (length (search_query db searchRequest))
      in case search_page db searchRequest of
           Inl e \<Rightarrow> Inl e
         | Inr rows \<Rightarrow>
             Inr (paged (map (search_result lib) rows) (PageNumber searchRequest)
                    (search_PageSize searchRequest) totalRecords))"

section \<open>Fingerprint guard\<close>

subsection \<open>JsonConvert.SerializeObject\<close>

text \<open>
  The text Newtonsoft writes with \<open>Formatting.None\<close>: a dictionary is written in
  enumeration order, an object with its properties in declaration order, under their C# names.
\<close>

definition hex_lower :: "nat \<Rightarrow> char" where
  "hex_lower n = (if n < 10 then char_of (48 + n) else char_of (87 + n))"

definition escape_char :: "char \<Rightarrow> string" where
  "escape_char c =
     (let n = (of_char c :: nat) in
      if c = CHR ''\"'' then [CHR 0x5C, CHR ''\"'']
      else if c = CHR 0x5C then [CHR 0x5C, CHR 0x5C]
      else if n = 8 then [CHR 0x5C, CHR ''b'']
      else if n = 9 then [CHR 0x5C, CHR ''t'']
      else if n = 10 then [CHR 0x5C, CHR ''n'']
      else if n = 12 then [CHR 0x5C, CHR ''f'']
      else if n = 13 then [CHR 0x5C, CHR ''r'']
      else if n < 32 then
        [CHR 0x5C, CHR ''u'', CHR ''0'', CHR ''0'', hex_lower (n div 16), hex_lower (n mod 16)]
      else [c])"

definition json_string :: "string \<Rightarrow> string" where
  "json_string s = [CHR ''\"''] @ concat (map escape_char s) @ [CHR ''\"'']"

fun join :: "string \<Rightarrow> string list \<Rightarrow> string" where
  "join sep [] = []"
| "join sep [x] = x"
| "join sep (x # y # ys) = x @ sep @ join sep (y # ys)"

fun digits :: "nat \<Rightarrow> string" where
  "digits n =
     (if n < 10 then [char_of (48 + n)] else digits (n div 10) @ [char_of (48 + n mod 10)])"

declare digits.simps [simp del]

definition Int64_ToString :: "int \<Rightarrow> string" where
  "Int64_ToString n = (if n < 0 then CHR ''-'' # digits (nat (- n)) else digits (nat n))"

definition json_value :: "lib \<Rightarrow> value \<Rightarrow> string" where
  "json_value lib v =
     (case v of
        VNull \<Rightarrow> ''null''
      | VString s \<Rightarrow> json_string s
      | VLong n \<Rightarrow> Int64_ToString n
      | VDouble d \<Rightarrow> Double_ToJson lib d
      | VBool b \<Rightarrow> (if b then ''true'' else ''false''))"

definition json_object :: "(string \<times> string) list \<Rightarrow> string" where
  "json_object members =
     ''{'' @ join '','' (map (\<lambda>(name, text). json_string name @ '':'' @ text) members) @ ''}''"

definition json_array :: "string list \<Rightarrow> string" where
  "json_array items = ''['' @ join '','' items @ '']''"

text \<open>\<open>JsonConvert.SerializeObject\<close> of a converted row, and of a header list.\<close>

definition SerializeObject_row :: "lib \<Rightarrow> (string, value) Dictionary \<Rightarrow> string" where
  "SerializeObject_row lib row = json_object (map (\<lambda>(k, v). (k, json_value lib v)) row)"

definition SerializeObject_strings :: "string list \<Rightarrow> string" where
  "SerializeObject_strings hs = json_array (map json_string hs)"

text \<open>
  Newtonsoft has no converter for \<open>JsonElement\<close>: it writes the struct as an object with
  its one public property, \<open>{"ValueKind":3}\<close>. This is the legacy shape of stored rows that
  \<open>ConvertLegacyValue\<close> reads back.
\<close>

fun JsonValueKind_code :: "JsonValueKind \<Rightarrow> int" where
  "JsonValueKind_code KUndefined = 0"
| "JsonValueKind_code KObject = 1"
| "JsonValueKind_code KArray = 2"
| "JsonValueKind_code KString = 3"
| "JsonValueKind_code KNumber = 4"
| "JsonValueKind_code KTrue = 5"
| "JsonValueKind_code KFalse = 6"
| "JsonValueKind_code KNull = 7"

definition json_cell :: "lib \<Rightarrow> cell \<Rightarrow> string" where
  "json_cell lib c =
     (case c of
        CElement e \<Rightarrow>
          json_object [(''ValueKind'', Int64_ToString (JsonValueKind_code (ValueKind e)))]
      | CObject v \<Rightarrow> json_value lib v)"

subsection \<open>The upload payload\<close>

record MetadataDto =
  ExportedAt :: DateTime
  metadata_ExcludedSheets :: "string list"

record SheetDataDto =
  dto_SheetName :: string
  dto_Headers :: "string list"
  dto_Data :: "(string, cell) Dictionary list"

record ExcelUploadDto =
  upload_FileName :: string
  upload_ImportedBy :: "string option"
  upload_Metadata :: MetadataDto
  upload_Sheets :: "(string, SheetDataDto) Dictionary"

definition json_SheetDataDto :: "lib \<Rightarrow> SheetDataDto \<Rightarrow> string" where
  "json_SheetDataDto lib sheet =
     json_object
       [(''SheetName'', json_string (dto_SheetName sheet)),
        (''Headers'', json_array (map json_string (dto_Headers sheet))),
        (''Data'',
           json_array
             (map (\<lambda>row. json_object (map (\<lambda>(k, c). (k, json_cell lib c)) row))
                (dto_Data sheet)))]"

definition SerializeObject_Sheets :: "lib \<Rightarrow> (string, SheetDataDto) Dictionary \<Rightarrow> string" where
  "SerializeObject_Sheets lib sheets =
     json_object (map (\<lambda>(name, sheet). (name, json_SheetDataDto lib sheet)) sheets)"

subsection \<open>SHA-256 and the digest\<close>

text \<open>
  \<open>SHA256.ComputeHash\<close> (FIPS 180-4) on a list of bytes. A 32-bit word is an integer in
  \<open>[0, 2^32)\<close>, with the reduction modulo \<open>2^32\<close> written out. The round constants
  and the initial hash value are given in decimal.
\<close>

unbundle bit_operations_syntax

definition K256 :: "int list" where
  "K256 =
     [1116352408, 1899447441, 3049323471, 3921009573, 961987163, 1508970993,
      2453635748, 2870763221, 3624381080, 310598401, 607225278, 1426881987,
      1925078388, 2162078206, 2614888103, 3248222580, 3835390401, 4022224774,
      264347078, 604807628, 770255983, 1249150122, 1555081692, 1996064986,
      2554220882, 2821834349, 2952996808, 3210313671, 3336571891, 3584528711,
      113926993, 338241895, 666307205, 773529912, 1294757372, 1396182291,
      1695183700, 1986661051, 2177026350, 2456956037, 2730485921, 2820302411,
      3259730800, 3345764771, 3516065817, 3600352804, 4094571909, 275423344,
      430227734, 506948616, 659060556, 883997877, 958139571, 1322822218,
      1537002063, 1747873779, 1955562222, 2024104815, 2227730452, 2361852424,
      2428436474, 2756734187, 3204031479, 3329325298]"

definition H256 :: "int list" where
  "H256 = [1779033703, 3144134277, 1013904242, 2773480762,
           1359893119, 2600822924, 528734635, 1541459225]"

definition add32 :: "int \<Rightarrow> int \<Rightarrow> int" where
  "add32 x y = (x + y) mod 4294967296"

definition shr :: "nat \<Rightarrow> int \<Rightarrow> int" where
  "shr n x = x div 2 ^ n"

definition rotr :: "nat \<Rightarrow> int \<Rightarrow> int" where
  "rotr n x = x div 2 ^ n + (x mod 2 ^ n) * 2 ^ (32 - n)"

definition ssig0 :: "int \<Rightarrow> int" where
  "ssig0 x = rotr 7 x XOR rotr 18 x XOR shr 3 x"

definition ssig1 :: "int \<Rightarrow> int" where
  "ssig1 x = rotr 17 x XOR rotr 19 x XOR shr 10 x"

definition bsig0 :: "int \<Rightarrow> int" where
  "bsig0 x = rotr 2 x XOR rotr 13 x XOR rotr 22 x"

definition bsig1 :: "int \<Rightarrow> int" where
  "bsig1 x = rotr 6 x XOR rotr 11 x XOR rotr 25 x"

definition ch :: "int \<Rightarrow> int \<Rightarrow> int \<Rightarrow> int" where
  "ch x y z = (x AND y) XOR ((4294967295 - x) AND z)"

definition maj :: "int \<Rightarrow> int \<Rightarrow> int \<Rightarrow> int" where
  "maj x y z = (x AND y) XOR (x AND z) XOR (y AND z)"

text \<open>The message schedule, most recent word first.\<close>

fun schedule :: "nat \<Rightarrow> int list \<Rightarrow> int list" where
  "schedule 0 ws = ws"
| "schedule (Suc n) ws =
     schedule n
       (add32 (add32 (ssig1 (ws ! 1)) (ws ! 6)) (add32 (ssig0 (ws ! 14)) (ws ! 15)) # ws)"

fun rounds :: "int list \<Rightarrow> int list \<Rightarrow> int list \<Rightarrow> int list" where
  "rounds [a, b, c, d, e, f, g, h] (k # ks) (w # ws) =
     (let t1 = add32 (add32 (add32 h (bsig1 e)) (add32 (ch e f g) k)) w;
          t2 = add32 (bsig0 a) (maj a b c)
      in rounds [add32 t1 t2, a, b, c, add32 d t1, e, f, g] ks ws)"
| "rounds s _ _ = s"

definition be32 :: "int list \<Rightarrow> int" where
  "be32 bs = foldl (\<lambda>acc b. acc * 256 + b) 0 bs"

fun block_words :: "nat \<Rightarrow> int list \<Rightarrow> int list" where
  "block_words 0 bs = []"
| "block_words (Suc n) bs = be32 (take 4 bs) # block_words n (drop 4 bs)"

definition compress :: "int list \<Rightarrow> int list \<Rightarrow> int list" where
  "compress hs block =
     map2 add32 hs (rounds hs K256 (rev (schedule 48 (rev (block_words 16 block)))))"

fun compress_blocks :: "nat \<Rightarrow> int list \<Rightarrow> int list \<Rightarrow> int list" where
  "compress_blocks 0 hs bs = hs"
| "compress_blocks (Suc n) hs bs = compress_blocks n (compress hs (take 64 bs)) (drop 64 bs)"

definition sha_pad :: "int list \<Rightarrow> int list" where
  "sha_pad m =
     (let l = length m; z = (55 + 64 - l mod 64) mod 64; bits = int (8 * l)
      in m @ [0x80] @ replicate z 0 @ map (\<lambda>i. (bits div 256 ^ (7 - i)) mod 256) [0..<8])"

definition SHA256_ComputeHash :: "int list \<Rightarrow> int list" where
  "SHA256_ComputeHash m =
     (let p = sha_pad m
      in concat (map (\<lambda>w. map (\<lambda>i. (w div 256 ^ (3 - i)) mod 256) [0..<4])
                   (compress_blocks (length p div 64) H256 p)))"

definition UTF8_GetBytes :: "string \<Rightarrow> int list" where
  "UTF8_GetBytes s = map (\<lambda>c. of_char c) s"

definition hex_upper :: "int \<Rightarrow> char" where
  "hex_upper n = ''0123456789ABCDEF'' ! nat n"

definition ToHexString :: "int list \<Rightarrow> string" where
  "ToHexString bs = concat (map (\<lambda>b. [hex_upper (b div 16), hex_upper (b mod 16)]) bs)"

definition CalculateFileHash :: "lib \<Rightarrow> ExcelUploadDto \<Rightarrow> string" where
  "CalculateFileHash lib uploadData =
     (let dataString = SerializeObject_Sheets lib (upload_Sheets uploadData)
      in ToHexString (SHA256_ComputeHash (UTF8_GetBytes dataString)))"

section \<open>Transactional import writer\<close>

subsection \<open>The environment of one call\<close>

text \<open>
  What a call of \<open>SaveExcelDataAsync\<close> takes from outside the program:
  \<^item> \<open>NewGuid k\<close>: the \<open>k\<close>-th \<open>Guid.NewGuid()\<close> of the call (each entity draws one
    when it is constructed);
  \<^item> \<open>UtcNow\<close>: the clock, read when the session is constructed;
  \<^item> \<open>ElapsedMilliseconds\<close> and \<open>Elapsed\<close>: the two readings of the stopwatch;
  \<^item> \<open>BulkInsertBatchSize\<close>: what
    \<open>GetValue<int>("ExcelProcessor:BulkInsertBatchSize", 1000)\<close> gives: the configured
    number (1000 when none is set), or the exception it throws when the configured text is
    not an integer;
  \<^item> \<open>DbFault k\<close>: the exception the \<open>k\<close>-th database command of the call throws, if
    it throws. The commands are \<open>BeginTransactionAsync\<close>, each \<open>SaveChangesAsync\<close>,
    \<open>CommitAsync\<close> and \<open>RollbackAsync\<close>, in the order the call issues them.
\<close>

record Environment =
  NewGuid :: "nat \<Rightarrow> Guid"
  UtcNow :: DateTime
  ElapsedMilliseconds :: int
  Elapsed :: int
  BulkInsertBatchSize :: "exn + int"
  DbFault :: "nat \<Rightarrow> exn option"

subsection \<open>The context and its transaction\<close>

text \<open>
  What the context tracks between two \<open>SaveChangesAsync\<close>: entities added and not yet
  inserted, and the new status of the tracked session.
\<close>

datatype change =
    AddSession ImportSession
  | AddExcludedSheet ExcludedSheet
  | AddSheet Sheet
  | AddSheetData SheetData
  | UpdateSession Guid string "int option"

fun apply_change :: "ExcelProcessorContext \<Rightarrow> change \<Rightarrow> ExcelProcessorContext" where
  "apply_change db (AddSession s) = db\<lparr>ImportSessions := ImportSessions db @ [s]\<rparr>"
| "apply_change db (AddExcludedSheet es) = db\<lparr>ExcludedSheets := ExcludedSheets db @ [es]\<rparr>"
| "apply_change db (AddSheet s) = db\<lparr>Sheets := Sheets db @ [s]\<rparr>"
| "apply_change db (AddSheetData sd) = db\<lparr>SheetData := SheetData db @ [sd]\<rparr>"
| "apply_change db (UpdateSession sessionId status ms) =
     db\<lparr>ImportSessions :=
          map (\<lambda>s. if session_Id s = sessionId
                    then s\<lparr>session_Status := status, session_ProcessingTimeMs := ms\<rparr> else s)
            (ImportSessions db)\<rparr>"

text \<open>
  The state a call works on:
  \<^item> \<open>database\<close>: the data the database holds, with what the open transaction has
    written so far;
  \<^item> \<open>transaction\<close>: \<open>None\<close> when no transaction is open, and for an open
    transaction the data it started from, to which the database returns when the
    transaction is rolled back;
  \<^item> \<open>tracked\<close>: the changes the context has not saved yet;
  \<^item> \<open>commands\<close> and \<open>guids\<close>: the number of database commands issued and of
    Guids drawn so far.

  A step of the call gives the state it leaves, or the exception it throws together with the
  state at that point, on which the \<open>catch\<close> block then works.
\<close>

record UnitOfWork =
  database :: ExcelProcessorContext
  "transaction" :: "ExcelProcessorContext option"
  tracked :: "change list"
  commands :: nat
  guids :: nat

type_synonym outcome = "exn \<times> UnitOfWork + UnitOfWork"

definition Add :: "change \<Rightarrow> UnitOfWork \<Rightarrow> UnitOfWork" where
  "Add c u = u\<lparr>tracked := tracked u @ [c], guids := Suc (guids u)\<rparr>"

text \<open>\<open>_context.SheetData.AddRange(batch)\<close>; each row of the batch has drawn its Guid.\<close>

definition AddRange :: "SheetData list \<Rightarrow> UnitOfWork \<Rightarrow> UnitOfWork" where
  "AddRange batch u =
     u\<lparr>tracked := tracked u @ map AddSheetData batch, guids := guids u + length batch\<rparr>"

text \<open>A change of a tracked entity: no new entity, no Guid.\<close>

definition Update :: "change \<Rightarrow> UnitOfWork \<Rightarrow> UnitOfWork" where
  "Update c u = u\<lparr>tracked := tracked u @ [c]\<rparr>"

text \<open>
  A database command: it throws what the environment says, and then has no effect on the
  data, or it has its effect.
\<close>

definition command ::
  "Environment \<Rightarrow> (UnitOfWork \<Rightarrow> UnitOfWork) \<Rightarrow> UnitOfWork \<Rightarrow> outcome" where
  "command env effect u =
     (case DbFault env (commands u) of
        Some e \<Rightarrow> Inl (e, u\<lparr>commands := Suc (commands u)\<rparr>)
      | None \<Rightarrow> Inr ((effect u)\<lparr>commands := Suc (commands u)\<rparr>))"

text \<open>\<open>_context.Database.BeginTransactionAsync()\<close>: the transaction starts from the data as they are.\<close>

definition BeginTransactionAsync :: "Environment \<Rightarrow> UnitOfWork \<Rightarrow> outcome" where
  "BeginTransactionAsync env =
     command env (\<lambda>u. u\<lparr>transaction := Some (database u)\<rparr>)"

text \<open>\<open>SaveChangesAsync\<close> writes the tracked changes into the database.\<close>

definition SaveChangesAsync :: "Environment \<Rightarrow> UnitOfWork \<Rightarrow> outcome" where
  "SaveChangesAsync env =
     command env
       (\<lambda>u. u\<lparr>database := foldl apply_change (database u) (tracked u), tracked := []\<rparr>)"

text \<open>
  \<open>transaction.CommitAsync()\<close> ends the transaction and keeps what it has written,
  \<open>transaction.RollbackAsync()\<close> ends it and returns the database to the data the
  transaction started from; on a transaction that is over both throw.
  The end of the scope of \<open>using var transaction\<close> disposes of the transaction, which
  rolls back a transaction still open and does not throw.
\<close>

definition CommitAsync :: "Environment \<Rightarrow> UnitOfWork \<Rightarrow> outcome" where
  "CommitAsync env u =
     (case transaction u of
        None \<Rightarrow> Inl (InvalidOperationException, u)
      | Some before \<Rightarrow> command env (\<lambda>u. u\<lparr>transaction := None\<rparr>) u)"

definition RollbackAsync :: "Environment \<Rightarrow> UnitOfWork \<Rightarrow> outcome" where
  "RollbackAsync env u =
     (case transaction u of
        None \<Rightarrow> Inl (InvalidOperationException, u)
      | Some before \<Rightarrow> command env (\<lambda>u. u\<lparr>database := before, transaction := None\<rparr>) u)"

definition Dispose :: "UnitOfWork \<Rightarrow> UnitOfWork" where
  "Dispose u =
     (case transaction u of
        None \<Rightarrow> u
      | Some before \<Rightarrow> u\<lparr>database := before, transaction := None\<rparr>)"

subsection \<open>SaveSheetDataAsync\<close>

text \<open>
  The rows of one batch: \<open>.Select((row, index) => new SheetData { ... })\<close>, with the
  Guids starting at the \<open>g\<close>-th of the call.
\<close>

definition new_rows ::
  "lib \<Rightarrow> Environment \<Rightarrow> Guid \<Rightarrow> int \<Rightarrow> nat \<Rightarrow> (string, cell) Dictionary list \<Rightarrow>
   SheetData list" where
  "new_rows lib env sheetId i g batch =
     map (\<lambda>(index, row).
            \<lparr> row_Id = NewGuid env (g + index), row_SheetId = sheetId,
              row_RowIndex = i + int index,
              row_RowData = SerializeObject_row lib (ConvertJsonElementsToValues row) \<rparr>)
       (enumerate 0 batch)"

text \<open>
  The loop \<open>for (int i = 0; i < sheetData.Data.Count; i += batchSize)\<close>; the addition
  wraps around in 32 bits. \<open>Skip\<close> and \<open>Take\<close> run on a list in memory, where a count
  below zero is zero. With a batch size of zero the loop does not end: the function is
  partial, \<open>None\<close> is a run that never returns.
\<close>

partial_function (option) save_batches ::
  "lib \<Rightarrow> Environment \<Rightarrow> Guid \<Rightarrow> (string, cell) Dictionary list \<Rightarrow> int \<Rightarrow> int \<Rightarrow>
   UnitOfWork \<Rightarrow> outcome option" where
  "save_batches lib env sheetId data batchSize i u =
     (if i < int (length data) then
        (let batch = new_rows lib env sheetId i (guids u)
                       (take (nat batchSize) (drop (nat i) data))
         in case SaveChangesAsync env (AddRange batch u) of
              Inl thrown \<Rightarrow> Some (Inl thrown)
            | Inr u2 \<Rightarrow> save_batches lib env sheetId data batchSize (int32 (i + batchSize)) u2)
      else Some (Inr u))"

declare save_batches.simps [code]

definition new_sheet :: "Guid \<Rightarrow> SheetDataDto \<Rightarrow> int \<Rightarrow> Guid \<Rightarrow> Sheet" where
  "new_sheet sessionId sheetData sheetIndex g =
     \<lparr> sheet_Id = g, sheet_SessionId = sessionId,
       sheet_SheetName = dto_SheetName sheetData, sheet_SheetIndex = sheetIndex,
       sheet_RowCount = int (length (dto_Data sheetData)),
       sheet_ColumnCount = int (length (dto_Headers sheetData)),
       sheet_Headers = SerializeObject_strings (dto_Headers sheetData) \<rparr>"

text \<open>The batch size is read from the configuration after the sheet has been inserted.\<close>

definition SaveSheetDataAsync ::
  "lib \<Rightarrow> Environment \<Rightarrow> Guid \<Rightarrow> SheetDataDto \<Rightarrow> int \<Rightarrow> UnitOfWork \<Rightarrow> outcome option" where
  "SaveSheetDataAsync lib env sessionId sheetData sheetIndex u =
     (let sheet = new_sheet sessionId sheetData sheetIndex (NewGuid env (guids u))
      in case SaveChangesAsync env (Add (AddSheet sheet) u) of
           Inl thrown \<Rightarrow> Some (Inl thrown)
         | Inr u2 \<Rightarrow>
             (case BulkInsertBatchSize env of
                Inl e \<Rightarrow> Some (Inl (e, u2))
              | Inr batchSize \<Rightarrow>
                  save_batches lib env (sheet_Id sheet) (dto_Data sheetData) batchSize 0 u2))"

subsection \<open>SaveExcelDataAsync\<close>

datatype message = FileAlreadyExists Guid | SavedSuccessfully

record UploadResponseDto =
  response_SessionId :: Guid
  Message :: message
  response_ProcessedSheets :: int
  response_TotalRows :: int
  response_ExcludedSheets :: int
  ProcessingTime :: int

text \<open>\<open>TimeSpan.FromMilliseconds\<close>, in ticks.\<close>

definition FromMilliseconds :: "int \<Rightarrow> int" where
  "FromMilliseconds ms = ms * 10000"

text \<open>The \<open>foreach\<close> over the excluded sheet names: each entity is added, none is saved yet.\<close>

fun add_excluded :: "Guid \<Rightarrow> Environment \<Rightarrow> string list \<Rightarrow> UnitOfWork \<Rightarrow> UnitOfWork" where
  "add_excluded sessionId env [] u = u"
| "add_excluded sessionId env (excludedSheetName # names) u =
     add_excluded sessionId env names
       (Add (AddExcludedSheet
               \<lparr> excluded_Id = NewGuid env (guids u), excluded_SessionId = sessionId,
                 excluded_SheetName = excludedSheetName,
                 excluded_ExclusionReason = Some ''Excluded by user pattern matching'' \<rparr>) u)"

text \<open>The \<open>foreach\<close> over the sheets, with \<open>sheetIndex++\<close>.\<close>

fun save_sheets ::
  "lib \<Rightarrow> Environment \<Rightarrow> Guid \<Rightarrow> (string, SheetDataDto) Dictionary \<Rightarrow> int \<Rightarrow> UnitOfWork \<Rightarrow>
   outcome option" where
  "save_sheets lib env sessionId [] sheetIndex u = Some (Inr u)"
| "save_sheets lib env sessionId (sheetKvp # sheets) sheetIndex u =
     (case SaveSheetDataAsync lib env sessionId (snd sheetKvp) sheetIndex u of
        None \<Rightarrow> None
      | Some (Inl thrown) \<Rightarrow> Some (Inl thrown)
      | Some (Inr u') \<Rightarrow> save_sheets lib env sessionId sheets (sheetIndex + 1) u')"

text \<open>
  \<open>Enumerable.Sum\<close> over \<open>int\<close>s adds in a checked context: it throws when a partial
  sum leaves the 32-bit range.
\<close>

fun Enumerable_Sum :: "int list \<Rightarrow> int \<Rightarrow> exn + int" where
  "Enumerable_Sum [] acc = Inr acc"
| "Enumerable_Sum (v # vs) acc =
     (if is_Int32 (acc + v) then Enumerable_Sum vs (acc + v) else Inl OverflowException)"

text \<open>
  \<open>new ImportSession { ... }\<close>: the total of the rows may throw, the other additions
  and the cast of the elapsed time wrap around.
\<close>

definition new_session ::
  "Environment \<Rightarrow> ExcelUploadDto \<Rightarrow> string \<Rightarrow> Guid \<Rightarrow> exn + ImportSession" where
  "new_session env uploadData fileHash g =
     (case Enumerable_Sum
             (map (\<lambda>(name, s). int (length (dto_Data s))) (upload_Sheets uploadData)) 0 of
        Inl e \<Rightarrow> Inl e
      | Inr totalRows \<Rightarrow>
          Inr \<lparr> session_Id = g,
                session_FileName = upload_FileName uploadData,
                session_FileHash = Some fileHash,
                session_TotalSheets =
                  int32 (int (length (upload_Sheets uploadData))
                         + int (length (metadata_ExcludedSheets (upload_Metadata uploadData)))),
                session_ProcessedSheets = int (length (upload_Sheets uploadData)),
                session_ExcludedSheets =
                  int (length (metadata_ExcludedSheets (upload_Metadata uploadData))),
                session_TotalRows = totalRows,
                session_ImportedAt = UtcNow env,
                session_ImportedBy = upload_ImportedBy uploadData,
                session_Status = ''Processing'',
                session_ProcessingTimeMs = None \<rparr>)"

text \<open>
  The inner \<open>try\<close> block: it gives the response, or it throws, and then the state is the
  one the \<open>catch\<close> block finds.
\<close>

definition import_transaction ::
  "lib \<Rightarrow> Environment \<Rightarrow> ExcelUploadDto \<Rightarrow> string \<Rightarrow> UnitOfWork \<Rightarrow>
   (exn \<times> UnitOfWork + UploadResponseDto \<times> UnitOfWork) option" where
  "import_transaction lib env uploadData fileHash u =
     (case new_session env uploadData fileHash (NewGuid env (guids u)) of
        Inl e \<Rightarrow> Some (Inl (e, u))
      | Inr session \<Rightarrow>
          (case SaveChangesAsync env (Add (AddSession session) u) of
             Inl thrown \<Rightarrow> Some (Inl thrown)
           | Inr u2 \<Rightarrow>
               (case save_sheets lib env (session_Id session) (upload_Sheets uploadData) 0
                       (add_excluded (session_Id session) env
                          (metadata_ExcludedSheets (upload_Metadata uploadData)) u2) of
                  None \<Rightarrow> None
                | Some (Inl thrown) \<Rightarrow> Some (Inl thrown)
                | Some (Inr u4) \<Rightarrow>
                    (case SaveChangesAsync env
                            (Update (UpdateSession (session_Id session) ''Completed''
                                       (Some (int32 (ElapsedMilliseconds env)))) u4) of
                       Inl thrown \<Rightarrow> Some (Inl thrown)
                     | Inr u6 \<Rightarrow>
                         (case CommitAsync env u6 of
                            Inl thrown \<Rightarrow> Some (Inl thrown)
                          | Inr u7 \<Rightarrow>
                              Some (Inr
                                (\<lparr> response_SessionId = session_Id session,
                                   Message = SavedSuccessfully,
                                   response_ProcessedSheets = session_ProcessedSheets session,
                                   response_TotalRows = session_TotalRows session,
                                   response_ExcludedSheets = session_ExcludedSheets session,
                                   ProcessingTime = Elapsed env \<rparr>, u7)))))))"

text \<open>
  The \<open>catch\<close> block of the transaction, \<open>await transaction.RollbackAsync(); throw;\<close>,
  on the exception \<open>e\<close> thrown in the state \<open>u\<close>: when the rollback throws, its
  exception is the one that leaves the block.
\<close>

definition rollback_and_rethrow :: "Environment \<Rightarrow> exn \<Rightarrow> UnitOfWork \<Rightarrow> exn \<times> UnitOfWork" where
  "rollback_and_rethrow env e u =
     (case RollbackAsync env u of
        Inl (e', u') \<Rightarrow> (e', u')
      | Inr u' \<Rightarrow> (e, u'))"

text \<open>
  The part of the call after the duplicate check, from \<open>using var transaction = await
  _context.Database.BeginTransactionAsync()\<close> on. It gives the response or the exception
  that leaves the call, and the data the database holds when the call is over, once the
  transaction has been disposed of.
\<close>

definition transactional_import ::
  "lib \<Rightarrow> Environment \<Rightarrow> ExcelProcessorContext \<Rightarrow> ExcelUploadDto \<Rightarrow> string \<Rightarrow>
   ((exn + UploadResponseDto) \<times> ExcelProcessorContext) option" where
  "transactional_import lib env db uploadData fileHash =
     (case BeginTransactionAsync env
             \<lparr> database = db, transaction = None, tracked = [], commands = 0, guids = 0 \<rparr> of
        Inl (e, u) \<Rightarrow> Some (Inl e, database u)
      | Inr u1 \<Rightarrow>
          (case import_transaction lib env uploadData fileHash u1 of
             None \<Rightarrow> None
           | Some (Inl (e, u2)) \<Rightarrow>
               (case rollback_and_rethrow env e u2 of
                  (e', u3) \<Rightarrow> Some (Inl e', database (Dispose u3)))
           | Some (Inr (response, u2)) \<Rightarrow> Some (Inr response, database (Dispose u2))))"

text \<open>
  The call returns the response or the exception it throws, and the data the database holds
  when the call is over. The lookup of the duplicate reads the data as they are; queries are
  taken to succeed, the faults of the store being those of the commands. The outer
  \<open>catch\<close> block logs and rethrows. Calls run one after the other.
\<close>

definition SaveExcelDataAsync ::
  "lib \<Rightarrow> Environment \<Rightarrow> ExcelProcessorContext \<Rightarrow> ExcelUploadDto \<Rightarrow>
   ((exn + UploadResponseDto) \<times> ExcelProcessorContext) option" where
  "SaveExcelDataAsync lib env db uploadData =
     (let fileHash = CalculateFileHash lib uploadData
      in case find (\<lambda>s. session_FileHash s = Some fileHash) (ImportSessions db) of
           Some existingSession \<Rightarrow>
             Some (Inr \<lparr> response_SessionId = session_Id existingSession,
                         Message = FileAlreadyExists (session_Id existingSession),
                         response_ProcessedSheets = session_ProcessedSheets existingSession,
                         response_TotalRows = session_TotalRows existingSession,
                         response_ExcludedSheets = session_ExcludedSheets existingSession,
                         ProcessingTime =
                           FromMilliseconds
                             (case session_ProcessingTimeMs existingSession of
                                None \<Rightarrow> 0 | Some ms \<Rightarrow> ms) \<rparr>, db)
         | None \<Rightarrow> transactional_import lib env db uploadData fileHash)"

section \<open>Notions used by the properties\<close>

subsection \<open>The order of search results\<close>

text \<open>
  The order the specification asks of two results, the first before the second: the session
  imported later first, then the lower sheet index, then the lower row index.
\<close>

definition search_before :: "joined_row \<Rightarrow> joined_row \<Rightarrow> bool" where
  "search_before a b =
     (case a of (sd, sheet, session) \<Rightarrow> case b of (sd', sheet', session') \<Rightarrow>
        session_ImportedAt session' < session_ImportedAt session \<or>
        (session_ImportedAt session' = session_ImportedAt session \<and>
           (sheet_SheetIndex sheet < sheet_SheetIndex sheet' \<or>
            (sheet_SheetIndex sheet = sheet_SheetIndex sheet' \<and>
               row_RowIndex sd \<le> row_RowIndex sd'))))"

subsection \<open>Runs of the import transaction\<close>

text \<open>
  \<open>begun db\<close> is the state in which the \<open>try\<close> block starts, the transaction just
  opened on the database \<open>db\<close>. \<open>pending_view\<close> is the data as the next
  \<open>SaveChangesAsync\<close> would leave them.
  \<open>faults_first env k e\<close>: command \<open>k\<close> is the first one to throw, and it throws
  \<open>e\<close>. \<open>original_error\<close>: the exception is that of the first step of the
  \<open>try\<close> block that fails: the first fault of the store, the exception of the
  configuration, or the overflow of the total of the rows.
  \<open>step_ok\<close> and \<open>grows\<close> are what every step inside the transaction keeps: an
  exception is the first fault of the store or that of the configuration, and the
  transaction stays open, with the same data to return to; and a step adds no session and
  only rows \<open>written\<close> from rows of the upload.
\<close>

definition begun :: "ExcelProcessorContext \<Rightarrow> UnitOfWork" where
  "begun db = \<lparr> database = db, transaction = Some db, tracked = [], commands = 1, guids = 0 \<rparr>"

definition pending_view :: "UnitOfWork \<Rightarrow> ExcelProcessorContext" where
  "pending_view u = foldl apply_change (database u) (tracked u)"






definition written :: "lib \<Rightarrow> (string, cell) Dictionary set \<Rightarrow> SheetData \<Rightarrow> bool" where
  "written lib D sd =
     (\<exists>row \<in> D. row_RowData sd = SerializeObject_row lib (ConvertJsonElementsToValues row))"

definition grows :: "lib \<Rightarrow> (string, cell) Dictionary set \<Rightarrow> UnitOfWork \<Rightarrow> outcome \<Rightarrow> bool" where
  "grows lib D u r =
     (case r of Inl thrown \<Rightarrow> True
      | Inr u' \<Rightarrow>
          ImportSessions (pending_view u') = ImportSessions (pending_view u) \<and>
          (\<forall>sd \<in> set (SheetData (pending_view u')).
              sd \<in> set (SheetData (pending_view u)) \<or> written lib D sd))"



definition upload_rows :: "ExcelUploadDto \<Rightarrow> (string, cell) Dictionary set" where
  "upload_rows uploadData = (\<Union>(name, sheet) \<in> set (upload_Sheets uploadData). set (dto_Data sheet))"

definition completed :: "Guid \<Rightarrow> int \<Rightarrow> ImportSession \<Rightarrow> ImportSession" where
  "completed g ms s =
     (if session_Id s = g
      then s\<lparr>session_Status := ''Completed'', session_ProcessingTimeMs := Some ms\<rparr> else s)"

text \<open>The response for an upload whose digest an existing session carries.\<close>

definition duplicate_response :: "ImportSession \<Rightarrow> UploadResponseDto" where
  "duplicate_response existingSession =
     \<lparr> response_SessionId = session_Id existingSession,
       Message = FileAlreadyExists (session_Id existingSession),
       response_ProcessedSheets = session_ProcessedSheets existingSession,
       response_TotalRows = session_TotalRows existingSession,
       response_ExcludedSheets = session_ExcludedSheets existingSession,
       ProcessingTime =
         FromMilliseconds
           (case session_ProcessingTimeMs existingSession of None \<Rightarrow> 0 | Some ms \<Rightarrow> ms) \<rparr>"

subsection \<open>Payloads with the same content\<close>

text \<open>
  Two dictionaries that are equal as mappings: the same keys with the same values, in any
  order of insertion.
\<close>

definition same_mapping :: "('k \<times> 'v) list \<Rightarrow> ('k \<times> 'v) list \<Rightarrow> bool" where
  "same_mapping xs ys = (distinct (map fst xs) \<and> distinct (map fst ys) \<and> set xs = set ys)"

subsection \<open>Example data\<close>

text \<open>
  A library that knows the few texts the examples store, and a small database whose rows
  are stored out of order; one row is not JSON and one sheet has an empty header.
\<close>

definition example_lib :: lib where
  "example_lib =
     \<lparr> JObject_Parse =
         (\<lambda>s. if s = ''{\"Name\":\"Acme\"}'' then Inr [(''Name'', JString ''Acme'')]
              else Inl JsonReaderException),
       JToken_ToString = (\<lambda>t. []),
       ChangeType_Int32 = (\<lambda>t. Inl FormatException),
       ChangeType_String = (\<lambda>t. Inl FormatException),
       ChangeType_Double = (\<lambda>t. Inl FormatException),
       Double_ToJson = (\<lambda>d. if d = 100 then ''100.0'' else ''0.0''),
       DeserializeObject_ListString =
         (\<lambda>s. if s = ''[\"Name\",\"Date Of Birth\"]''
                then Inr (Some [Some ''Name'', Some ''Date Of Birth''])
              else if s = ''[\"Name\",\"\"]'' then Inr (Some [Some ''Name'', Some ''''])
              else Inl JsonReaderException),
       Culture_ToLower = (\<lambda>c. if c = CHR ''I'' then CHR ''i'' else c) \<rparr>"

definition example_session :: "Guid \<Rightarrow> string \<Rightarrow> DateTime \<Rightarrow> ImportSession" where
  "example_session g name t =
     \<lparr> session_Id = g, session_FileName = name, session_FileHash = None,
       session_TotalSheets = 2, session_ProcessedSheets = 2, session_ExcludedSheets = 0,
       session_TotalRows = 2, session_ImportedAt = t, session_ImportedBy = None,
       session_Status = ''Completed'', session_ProcessingTimeMs = Some 5 \<rparr>"

definition example_db :: ExcelProcessorContext where
  "example_db =
     \<lparr> ImportSessions = [example_session 1 ''a.xlsx'' 100, example_session 2 ''b.xlsx'' 200],
       Sheets =
         [\<lparr> sheet_Id = 11, sheet_SessionId = 1, sheet_SheetName = ''Blank'', sheet_SheetIndex = 1,
            sheet_RowCount = 0, sheet_ColumnCount = 2, sheet_Headers = ''[\"Name\",\"\"]'' \<rparr>,
          \<lparr> sheet_Id = 10, sheet_SessionId = 1, sheet_SheetName = ''Data'', sheet_SheetIndex = 0,
            sheet_RowCount = 2, sheet_ColumnCount = 2,
            sheet_Headers = ''[\"Name\",\"Date Of Birth\"]'' \<rparr>,
          \<lparr> sheet_Id = 20, sheet_SessionId = 2, sheet_SheetName = ''Data'', sheet_SheetIndex = 0,
            sheet_RowCount = 1, sheet_ColumnCount = 2,
            sheet_Headers = ''[\"Name\",\"Date Of Birth\"]'' \<rparr>],
       SheetData =
         [\<lparr> row_Id = 101, row_SheetId = 10, row_RowIndex = 1, row_RowData = ''{broken'' \<rparr>,
          \<lparr> row_Id = 100, row_SheetId = 10, row_RowIndex = 0,
            row_RowData = ''{\"Name\":\"Acme\"}'' \<rparr>,
          \<lparr> row_Id = 200, row_SheetId = 20, row_RowIndex = 0,
            row_RowData = ''{\"Name\":\"Acme\"}'' \<rparr>],
       ExcludedSheets = [] \<rparr>"

definition example_search :: SearchRequestDto where
  "example_search =
     \<lparr> SearchTerm = ''e'', search_SessionId = None, PageNumber = 1, search_PageSize = 2 \<rparr>"

definition example_sessions105 :: ExcelProcessorContext where
  "example_sessions105 =
     \<lparr> ImportSessions = replicate 105 (example_session 1 ''a.xlsx'' 100),
       Sheets = [], SheetData = [], ExcludedSheets = [] \<rparr>"

text \<open>
  Uploads for the examples: the end-to-end scenario of one sheet with one row and one
  excluded sheet, and a file of three sheets; an environment in which no database command
  fails, one in which the seventh command (the insertion of the third sheet) fails, one
  in which the rollback after it fails too, and one whose configured batch size is not a
  number; the database after the first upload, as a function of the digest.
\<close>

definition example_row :: "(string, cell) Dictionary" where
  "example_row =
     [(''Name'', CElement (EString ''Acme'')), (''Amount'', CElement (ENumber (Some 100) 100)),
      (''Note'', CElement ENull)]"

definition example_sheet :: "string \<Rightarrow> SheetDataDto" where
  "example_sheet name =
     \<lparr> dto_SheetName = name, dto_Headers = [''Name'', ''Amount'', ''Note''],
       dto_Data = [example_row] \<rparr>"

definition example_upload :: ExcelUploadDto where
  "example_upload =
     \<lparr> upload_FileName = ''acme.xlsx'', upload_ImportedBy = None,
       upload_Metadata = \<lparr> ExportedAt = 250, metadata_ExcludedSheets = [''Summary''] \<rparr>,
       upload_Sheets = [(''Data'', example_sheet ''Data'')] \<rparr>"


definition example_env :: Environment where
  "example_env =
     \<lparr> NewGuid = (\<lambda>k. 1000 + k), UtcNow = 300, ElapsedMilliseconds = 7, Elapsed = 70000,
       BulkInsertBatchSize = Inr 1000, DbFault = (\<lambda>k. None) \<rparr>"





definition example_db_after :: "string \<Rightarrow> ExcelProcessorContext" where
  "example_db_after fileHash =
     \<lparr> ImportSessions =
         ImportSessions example_db @
         [\<lparr> session_Id = 1000, session_FileName = ''acme.xlsx'',
            session_FileHash = Some fileHash, session_TotalSheets = 2,
            session_ProcessedSheets = 1, session_ExcludedSheets = 1, session_TotalRows = 1,
            session_ImportedAt = 300, session_ImportedBy = None,
            session_Status = ''Completed'', session_ProcessingTimeMs = Some 7 \<rparr>],
       Sheets =
         Sheets example_db @
         [\<lparr> sheet_Id = 1002, sheet_SessionId = 1000, sheet_SheetName = ''Data'',
            sheet_SheetIndex = 0, sheet_RowCount = 1, sheet_ColumnCount = 3,
            sheet_Headers = ''[\"Name\",\"Amount\",\"Note\"]'' \<rparr>],
       SheetData =
         SheetData example_db @
         [\<lparr> row_Id = 1003, row_SheetId = 1002, row_RowIndex = 0,
            row_RowData = ''{\"Name\":\"Acme\",\"Amount\":100.0,\"Note\":\"N/A\"}'' \<rparr>],
       ExcludedSheets =
         [\<lparr> excluded_Id = 1001, excluded_SessionId = 1000, excluded_SheetName = ''Summary'',
            excluded_ExclusionReason = Some ''Excluded by user pattern matching'' \<rparr>] \<rparr>"

definition example_response :: UploadResponseDto where
  "example_response =
     \<lparr> response_SessionId = 1000, Message = SavedSuccessfully, response_ProcessedSheets = 1,
       response_TotalRows = 1, response_ExcludedSheets = 1, ProcessingTime = 70000 \<rparr>"

text \<open>
  Two uploads of the same two empty sheets, inserted in the two possible orders, and the
  one-sheet upload under another file name; the sessions and sheets the two uploads give,
  as functions of the digest; a database in which two sessions carry the same digest.
\<close>

definition example_empty_sheet :: "string \<Rightarrow> SheetDataDto" where
  "example_empty_sheet name = \<lparr> dto_SheetName = name, dto_Headers = [], dto_Data = [] \<rparr>"

definition example_upload_AB :: ExcelUploadDto where
  "example_upload_AB =
     \<lparr> upload_FileName = ''ab.xlsx'', upload_ImportedBy = None,
       upload_Metadata = \<lparr> ExportedAt = 250, metadata_ExcludedSheets = [] \<rparr>,
       upload_Sheets = [(''A'', example_empty_sheet ''A''), (''B'', example_empty_sheet ''B'')] \<rparr>"

definition example_upload_BA :: ExcelUploadDto where
  "example_upload_BA =
     \<lparr> upload_FileName = ''ab.xlsx'', upload_ImportedBy = None,
       upload_Metadata = \<lparr> ExportedAt = 250, metadata_ExcludedSheets = [] \<rparr>,
       upload_Sheets = [(''B'', example_empty_sheet ''B''), (''A'', example_empty_sheet ''A'')] \<rparr>"

definition example_upload_renamed :: ExcelUploadDto where
  "example_upload_renamed = example_upload\<lparr>upload_FileName := ''renamed.xlsx''\<rparr>"






section \<open>Properties: paging\<close>

lemma total_pages_bounds:
  assumes "0 < s"
  shows "(total_pages n s - 1) * s < n \<and> n \<le> total_pages n s * s"
proof -
  have tp: "total_pages n s = - (- n div s)"
    unfolding total_pages_def by (rule ceiling_divide_eq_div)
  have "- n = (- n div s) * s + (- n) mod s" by simp
  moreover have "0 \<le> (- n) mod s" "(- n) mod s < s" using assms by simp_all
  ultimately show ?thesis unfolding tp
    by (smt (verit) mult_minus_left left_diff_distrib mult_cancel_right2)
qed

lemma paged_sel:
  "HasNextPage (paged d p s n) = (p < total_pages n s)"
  "HasPreviousPage (paged d p s n) = (1 < p)"
  "TotalPages (paged d p s n) = total_pages n s"
  "TotalRecords (paged d p s n) = n"
  "PageSize (paged d p s n) = s"
  "CurrentPage (paged d p s n) = p"
  "page_Data (paged d p s n) = d"
  by (simp_all add: paged_def Let_def)

lemma GetSessionsAsync_Inr:
  assumes "GetSessionsAsync db p s = Inr r"
  shows "\<exists>d. r = paged d p s (int (length (ImportSessions db)))"
  using assms by (auto simp: GetSessionsAsync_def Let_def split: sum.splits)

lemma SearchDataAsync_Inr:
  assumes "SearchDataAsync lib db req = Inr r"
  shows "\<exists>rows. search_page db req = Inr rows \<and>
           r = paged (map (search_result lib) rows) (PageNumber req) (search_PageSize req)
                 (int (length (search_query db req)))"
  using assms by (auto simp: SearchDataAsync_def Let_def split: sum.splits)

text \<open>
  Claim C7. A session listing or a search that returns, with a positive page size \<open>s\<close>,
  total record count \<open>n\<close> and page \<open>p\<close>, reports \<open>TotalPages = ceil(n / s)\<close>,
  that is the least number of pages of size \<open>s\<close> that hold \<open>n\<close> records,
  \<open>HasNextPage = (p < TotalPages)\<close> and \<open>HasPreviousPage = (p > 1)\<close>.
\<close>

theorem page_metadata:
  "(0 < s \<and> GetSessionsAsync db p s = Inr r \<longrightarrow>
      TotalRecords r = int (length (ImportSessions db)) \<and>
      TotalPages r = \<lceil>real_of_int (TotalRecords r) / real_of_int s\<rceil> \<and>
      (TotalPages r - 1) * s < TotalRecords r \<and> TotalRecords r \<le> TotalPages r * s \<and>
      HasNextPage r = (p < TotalPages r) \<and> HasPreviousPage r = (1 < p)) \<and>
   (0 < search_PageSize req \<and> SearchDataAsync lib db req = Inr r' \<longrightarrow>
      TotalRecords r' = int (length (search_query db req)) \<and>
      TotalPages r' = \<lceil>real_of_int (TotalRecords r') / real_of_int (search_PageSize req)\<rceil> \<and>
      (TotalPages r' - 1) * search_PageSize req < TotalRecords r' \<and>
      TotalRecords r' \<le> TotalPages r' * search_PageSize req \<and>
      HasNextPage r' = (PageNumber req < TotalPages r') \<and>
      HasPreviousPage r' = (1 < PageNumber req))"
proof (intro conjI impI)
  assume a: "0 < s \<and> GetSessionsAsync db p s = Inr r"
  then obtain d where r: "r = paged d p s (int (length (ImportSessions db)))"
    using GetSessionsAsync_Inr by blast
  show "TotalRecords r = int (length (ImportSessions db))" by (simp add: r paged_sel)
  show "TotalPages r = \<lceil>real_of_int (TotalRecords r) / real_of_int s\<rceil>"
    by (simp add: r paged_sel total_pages_def)
  show "(TotalPages r - 1) * s < TotalRecords r" "TotalRecords r \<le> TotalPages r * s"
    using total_pages_bounds [of s "int (length (ImportSessions db))"] a
    by (simp_all add: r paged_sel)
  show "HasNextPage r = (p < TotalPages r)" "HasPreviousPage r = (1 < p)"
    by (simp_all add: r paged_sel)
next
  assume a: "0 < search_PageSize req \<and> SearchDataAsync lib db req = Inr r'"
  then obtain rows where r: "r' = paged (map (search_result lib) rows) (PageNumber req)
      (search_PageSize req) (int (length (search_query db req)))"
    using SearchDataAsync_Inr by blast
  show "TotalRecords r' = int (length (search_query db req))" by (simp add: r paged_sel)
  show "TotalPages r' = \<lceil>real_of_int (TotalRecords r') / real_of_int (search_PageSize req)\<rceil>"
    by (simp add: r paged_sel total_pages_def)
  show "(TotalPages r' - 1) * search_PageSize req < TotalRecords r'"
       "TotalRecords r' \<le> TotalPages r' * search_PageSize req"
    using total_pages_bounds [of "search_PageSize req" "int (length (search_query db req))"] a
    by (simp_all add: r paged_sel)
  show "HasNextPage r' = (PageNumber req < TotalPages r')"
       "HasPreviousPage r' = (1 < PageNumber req)"
    by (simp_all add: r paged_sel)
qed

section \<open>Properties: search order and headers\<close>

lemma search_key_le: "search_key a \<le> search_key b \<longleftrightarrow> search_before a b"
  by (cases a, cases b) (auto simp: search_key_def search_before_def less_eq_prod_simp)

lemma sorted_wrt_sort_key_search:
  "sorted_wrt search_before (sort_key search_key xs)"
proof -
  have "sorted (map search_key (sort_key search_key xs))" by (rule sorted_sort_key)
  then have "sorted_wrt (\<lambda>a b. search_key a \<le> search_key b) (sort_key search_key xs)"
    by (simp add: sorted_wrt_map)
  then show ?thesis by (simp add: search_key_le)
qed

lemma Skip_Take_Inr:
  "Skip_Take off n xs = Inr ys \<Longrightarrow> ys = take (nat n) (drop (nat off) xs)"
  by (simp add: Skip_Take_def split: if_splits)

lemma search_page_sorted:
  assumes "search_page db req = Inr rows"
  shows "sorted_wrt search_before rows"
proof -
  have "rows = take (nat (search_PageSize req))
                 (drop (nat (int32 ((PageNumber req - 1) * search_PageSize req)))
                    (sort_key search_key (search_query db req)))"
    using assms unfolding search_page_def by (rule Skip_Take_Inr)
  then show ?thesis
    by (simp add: sorted_wrt_take sorted_wrt_drop sorted_wrt_sort_key_search)
qed

lemma search_before_ImportedAt:
  "search_before a b \<Longrightarrow>
   result_ImportedAt (search_result lib b) \<le> result_ImportedAt (search_result lib a)"
  by (cases a, cases b) (auto simp: search_before_def search_result_def)

lemma search_results_sorted:
  assumes "SearchDataAsync lib db req = Inr r"
  shows "\<exists>rows. search_page db req = Inr rows \<and>
           page_Data r = map (search_result lib) rows \<and>
           sorted_wrt search_before rows \<and>
           sorted_wrt (\<lambda>x y. result_ImportedAt y \<le> result_ImportedAt x) (page_Data r)"
proof -
  obtain rows where rows: "search_page db req = Inr rows"
    and r: "r = paged (map (search_result lib) rows) (PageNumber req) (search_PageSize req)
                 (int (length (search_query db req)))"
    using SearchDataAsync_Inr [OF assms] by blast
  have s: "sorted_wrt search_before rows" by (rule search_page_sorted [OF rows])
  have "sorted_wrt (\<lambda>a b. result_ImportedAt (search_result lib b)
                          \<le> result_ImportedAt (search_result lib a)) rows"
    by (rule sorted_wrt_mono_rel [OF _ s]) (simp add: search_before_ImportedAt)
  then have "sorted_wrt (\<lambda>x y. result_ImportedAt y \<le> result_ImportedAt x)
               (map (search_result lib) rows)"
    by (simp add: sorted_wrt_map)
  with rows s show ?thesis by (simp add: r paged_sel)
qed

lemma mset_map_filter:
  "mset xs = mset ys \<Longrightarrow> mset (List.map_filter f xs) = mset (List.map_filter f ys)"
proof -
  assume a: "mset xs = mset ys"
  have "\<And>zs. mset (List.map_filter f zs) =
          image_mset (the \<circ> f) (filter_mset (\<lambda>x. f x \<noteq> None) (mset zs))"
    by (simp add: List.map_filter_def)
  then show ?thesis using a by simp
qed

lemma join_row_tables:
  "Sheets db' = Sheets db \<Longrightarrow> ImportSessions db' = ImportSessions db \<Longrightarrow>
   join_row db' = join_row db"
  by (rule ext) (simp add: join_row_def split: option.splits)

lemma search_query_mset:
  assumes "mset (SheetData db') = mset (SheetData db)" "Sheets db' = Sheets db"
    "ImportSessions db' = ImportSessions db"
  shows "mset (search_query db' req) = mset (search_query db req)"
proof -
  have "mset (List.map_filter (join_row db') (SheetData db')) =
        mset (List.map_filter (join_row db) (SheetData db))"
    unfolding join_row_tables [OF assms(2,3)] by (rule mset_map_filter) (rule assms(1))
  then show ?thesis
    by (cases "search_SessionId req") (simp_all add: search_query_def Let_def)
qed

lemma sorted_keys_determined:
  assumes "mset xs = mset ys"
  shows "map f (sort_key f xs) = map f (sort_key f ys)"
proof -
  have "mset (map f (sort_key f xs)) = mset (map f (sort_key f ys))"
    using assms by simp
  moreover have "sorted (map f (sort_key f xs))" "sorted (map f (sort_key f ys))"
    by (rule sorted_sort_key)+
  ultimately have "sort (map f (sort_key f ys)) = map f (sort_key f xs)"
    by (intro properties_for_sort) simp_all
  moreover have "sort (map f (sort_key f ys)) = map f (sort_key f ys)"
    using \<open>sorted (map f (sort_key f ys))\<close> by (simp add: sort_key_id_if_sorted)
  ultimately show ?thesis by simp
qed

lemma search_page_storage_order:
  assumes "mset (SheetData db') = mset (SheetData db)" "Sheets db' = Sheets db"
    "ImportSessions db' = ImportSessions db" "search_page db req = Inr rows"
  shows "\<exists>rows'. search_page db' req = Inr rows' \<and> map search_key rows' = map search_key rows"
proof -
  let ?off = "int32 ((PageNumber req - 1) * search_PageSize req)"
  let ?n = "search_PageSize req"
  from assms(4) have ok: "\<not> (?off < 0 \<or> ?n \<le> 0)"
    and rows: "rows = take (nat ?n) (drop (nat ?off) (sort_key search_key (search_query db req)))"
    by (auto simp: search_page_def Skip_Take_def split: if_splits)
  have k: "map search_key (sort_key search_key (search_query db' req)) =
           map search_key (sort_key search_key (search_query db req))"
    by (rule sorted_keys_determined) (rule search_query_mset [OF assms(1-3)])
  let ?rows' = "take (nat ?n) (drop (nat ?off) (sort_key search_key (search_query db' req)))"
  have "search_page db' req = Inr ?rows'" using ok by (simp add: search_page_def Skip_Take_def)
  moreover have "map search_key ?rows' = map search_key rows"
    by (simp only: rows take_map [symmetric] drop_map [symmetric] k)
  ultimately show ?thesis by blast
qed

text \<open>
  Claim C6. The results of a search are in the order \<open>search_before\<close>: by the
  imported-at time of the owning session, latest first, then by the sheet's position index,
  then by the row index; in the returned list the imported-at times never increase. The
  order does not depend on the order of the rows in storage: a database with the same rows
  stored in another order gives a page with the same sequence of sort keys.
\<close>

theorem search_ordering:
  "(SearchDataAsync lib db req = Inr r \<longrightarrow>
      (\<exists>rows. search_page db req = Inr rows \<and>
              page_Data r = map (search_result lib) rows \<and>
              sorted_wrt search_before rows \<and>
              sorted_wrt (\<lambda>x y. result_ImportedAt y \<le> result_ImportedAt x) (page_Data r))) \<and>
   (mset (SheetData db') = mset (SheetData db) \<and> Sheets db' = Sheets db \<and>
    ImportSessions db' = ImportSessions db \<and> search_page db req = Inr rows0 \<longrightarrow>
      (\<exists>rows'. search_page db' req = Inr rows' \<and>
               map search_key rows' = map search_key rows0))"
  using search_results_sorted search_page_storage_order by blast



lemma Select_ToList_Inl:
  "x \<in> set xs \<Longrightarrow> f x = Inl e \<Longrightarrow> \<exists>e'. Select_ToList f xs = Inl e'"
  by (induction xs) (auto split: sum.splits)

lemma Select_ToList_Inl_cause:
  "Select_ToList f xs = Inl e \<Longrightarrow> \<exists>x \<in> set xs. f x = Inl e"
  by (induction xs) (auto split: sum.splits)

lemma Select_ToList_total:
  "(\<And>x. x \<in> set xs \<Longrightarrow> \<exists>y. f x = Inr y) \<Longrightarrow> \<exists>ys. Select_ToList f xs = Inr ys"
proof (induction xs)
  case Nil
  then show ?case by simp
next
  case (Cons a xs)
  then obtain y where "f a = Inr y" by auto
  moreover from Cons obtain ys where "Select_ToList f xs = Inr ys" by auto
  ultimately show ?case by simp
qed


lemma lower_first_Inl:
  "lower_first lib h = Inl e \<Longrightarrow> e = NullReferenceException \<or> e = IndexOutOfRangeException"
  by (auto simp: lower_first_def split: option.splits list.splits)



lemma headers_out_total:
  assumes "DeserializeObject_ListString lib stored = Inr (Some xs)"
    and "\<forall>h \<in> set xs. h \<noteq> None \<and> h \<noteq> Some []"
  shows "\<exists>hs. headers_out lib stored = Inr hs"
proof -
  have "\<exists>ys. Select_ToList (lower_first lib) xs = Inr ys"
  proof (rule Select_ToList_total)
    fix x assume "x \<in> set xs"
    with assms(2) have "x \<noteq> None" "x \<noteq> Some []" by auto
    then show "\<exists>y. lower_first lib x = Inr y"
      by (cases x) (auto simp: lower_first_def split: list.splits)
  qed
  with assms(1) show ?thesis by (simp add: headers_out_def)
qed

lemma headers_out_empty:
  assumes "DeserializeObject_ListString lib stored = Inr (Some xs)" "Some [] \<in> set xs"
  shows "\<exists>e. headers_out lib stored = Inl e \<and>
              (e = IndexOutOfRangeException \<or> e = NullReferenceException)"
proof -
  have "lower_first lib (Some []) = Inl IndexOutOfRangeException" by (simp add: lower_first_def)
  from Select_ToList_Inl [of "Some []" xs "lower_first lib", OF assms(2) this]
  obtain e where e: "Select_ToList (lower_first lib) xs = Inl e" by blast
  from Select_ToList_Inl_cause [OF this] lower_first_Inl
  have "e = IndexOutOfRangeException \<or> e = NullReferenceException" by blast
  with e assms(1) show ?thesis by (simp add: headers_out_def)
qed

lemma GetSheetDetailAsync_found:
  assumes "find (\<lambda>s. sheet_Id s = sheetId) (Sheets db) = Some sheet"
  shows "GetSheetDetailAsync lib db sheetId =
           (case headers_out lib (sheet_Headers sheet) of
              Inl e \<Rightarrow> Inl e
            | Inr hs \<Rightarrow> Inr (Some \<lparr> sheetDetail_Id = sheet_Id sheet,
                      sheetDetail_SheetName = sheet_SheetName sheet,
                      sheetDetail_SheetIndex = sheet_SheetIndex sheet,
                      sheetDetail_Headers = hs,
                      sheetDetail_Data = map (\<lambda>sd. ConvertLegacyData lib (row_RowData sd))
                        (sort_key row_RowIndex (sheet_SheetDataRows db sheetId)) \<rparr>))"
  using assms by (simp add: GetSheetDetailAsync_def Let_def)




lemma list_all2_in_set2:
  "list_all2 P xs ys \<Longrightarrow> y \<in> set ys \<Longrightarrow> \<exists>x \<in> set xs. P x y"
  by (induction rule: list_all2_induct) auto




text \<open>
  Claim C10. When the stored header list of a sheet contains the empty string, the sheet
  detail throws (the index is out of range, or an earlier element is \<open>null\<close>), and so
  does the detail of the session that owns the sheet; when every stored header is a
  non-empty string, the sheet detail returns.
\<close>

theorem detail_faults_on_empty_header:
  "(find (\<lambda>s. sheet_Id s = sheetId) (Sheets db) = Some sheet \<and>
    DeserializeObject_ListString lib (sheet_Headers sheet) = Inr (Some stored) \<and>
    Some [] \<in> set stored \<longrightarrow>
      (\<exists>e. GetSheetDetailAsync lib db sheetId = Inl e \<and>
           (e = IndexOutOfRangeException \<or> e = NullReferenceException))) \<and>
   (find (\<lambda>s. session_Id s = sessionId) (ImportSessions db) = Some session \<and>
    s \<in> set (Sheets db) \<and> sheet_SessionId s = sessionId \<and>
    DeserializeObject_ListString lib (sheet_Headers s) = Inr (Some stored') \<and>
    Some [] \<in> set stored' \<longrightarrow>
      (\<exists>e. GetSessionDataAsync lib db sessionId = Inl e)) \<and>
   (find (\<lambda>s. sheet_Id s = sheetId) (Sheets db) = Some sheet \<and>
    DeserializeObject_ListString lib (sheet_Headers sheet) = Inr (Some stored) \<and>
    (\<forall>h \<in> set stored. h \<noteq> None \<and> h \<noteq> Some []) \<longrightarrow>
      (\<exists>dto. GetSheetDetailAsync lib db sheetId = Inr (Some dto)))"
proof (intro conjI impI)
  assume a: "find (\<lambda>s. sheet_Id s = sheetId) (Sheets db) = Some sheet \<and>
    DeserializeObject_ListString lib (sheet_Headers sheet) = Inr (Some stored) \<and>
    Some [] \<in> set stored"
  then obtain e where "headers_out lib (sheet_Headers sheet) = Inl e"
      "e = IndexOutOfRangeException \<or> e = NullReferenceException"
    using headers_out_empty by blast
  with a show "\<exists>e. GetSheetDetailAsync lib db sheetId = Inl e \<and>
           (e = IndexOutOfRangeException \<or> e = NullReferenceException)"
    by (simp add: GetSheetDetailAsync_found)
next
  assume a: "find (\<lambda>s. session_Id s = sessionId) (ImportSessions db) = Some session \<and>
    s \<in> set (Sheets db) \<and> sheet_SessionId s = sessionId \<and>
    DeserializeObject_ListString lib (sheet_Headers s) = Inr (Some stored') \<and>
    Some [] \<in> set stored'"
  then obtain e where "headers_out lib (sheet_Headers s) = Inl e"
    using headers_out_empty by blast
  then have f: "sheet_summary lib s = Inl e" by (simp add: sheet_summary_def)
  have m: "s \<in> set (sort_key sheet_SheetIndex (session_Sheets db sessionId))"
    using a by (simp add: session_Sheets_def)
  obtain e' where
    "Select_ToList (sheet_summary lib) (sort_key sheet_SheetIndex (session_Sheets db sessionId))
       = Inl e'"
    using Select_ToList_Inl [of s _ "sheet_summary lib" e, OF m f] by blast
  with a show "\<exists>e. GetSessionDataAsync lib db sessionId = Inl e"
    by (simp add: GetSessionDataAsync_def)
next
  assume a: "find (\<lambda>s. sheet_Id s = sheetId) (Sheets db) = Some sheet \<and>
    DeserializeObject_ListString lib (sheet_Headers sheet) = Inr (Some stored) \<and>
    (\<forall>h \<in> set stored. h \<noteq> None \<and> h \<noteq> Some [])"
  then have "\<exists>hs. headers_out lib (sheet_Headers sheet) = Inr hs"
    using headers_out_total by blast
  with a show "\<exists>dto. GetSheetDetailAsync lib db sheetId = Inr (Some dto)"
    by (auto simp: GetSheetDetailAsync_found)
qed

section \<open>Properties: the fingerprint\<close>

text \<open>The model of SHA-256 gives the digest of the standard test message.\<close>

lemma SHA256_abc:
  "ToHexString (SHA256_ComputeHash (UTF8_GetBytes ''abc'')) =
     ''BA7816BF8F01CFEA414140DE5DAE2223B00361A396177A9CB410FF61F20015AD''"
  by code_simp

lemma digest_AB:
  "CalculateFileHash example_lib example_upload_AB =
     ''F357A3715E9CEB7D44C52EEDB3D43FD7C0822DEC89117EF6759B59973F304365''"
  by code_simp

lemma digest_BA:
  "CalculateFileHash example_lib example_upload_BA =
     ''421887471A0D7E7867D772E21BE5357DBD8D94B34B25E4BB0F80AE97D56E87B5''"
  by code_simp

text \<open>
  Claim C1 fails: the same two sheets inserted in the two possible orders have different
  digests.
\<close>

theorem fingerprint_order_counterexample:
  "same_mapping (upload_Sheets example_upload_AB) (upload_Sheets example_upload_BA) \<and>
   CalculateFileHash example_lib example_upload_AB \<noteq>
   CalculateFileHash example_lib example_upload_BA"
proof -
  have "same_mapping (upload_Sheets example_upload_AB) (upload_Sheets example_upload_BA)"
    by (auto simp: same_mapping_def example_upload_AB_def example_upload_BA_def)
  then show ?thesis by (simp add: digest_AB digest_BA)
qed

text \<open>
  Claim C1, as amended. The digest is a function of the sheet dictionary in its order of
  insertion: two uploads with the same sheets in the same order have the same digest, and
  the file name, the importer and the metadata do not enter it.
\<close>

theorem fingerprint_of_ordered_sheets:
  "(upload_Sheets u2 = upload_Sheets u1 \<longrightarrow>
      CalculateFileHash lib u2 = CalculateFileHash lib u1) \<and>
   CalculateFileHash lib
     (u1\<lparr>upload_FileName := f, upload_ImportedBy := b, upload_Metadata := m\<rparr>) =
   CalculateFileHash lib u1"
  by (simp add: CalculateFileHash_def)

theorem fingerprint_of_ordered_sheets_witness:
  "upload_Sheets example_upload_renamed = upload_Sheets example_upload \<and>
   upload_FileName example_upload_renamed \<noteq> upload_FileName example_upload \<and>
   CalculateFileHash example_lib example_upload_renamed =
   CalculateFileHash example_lib example_upload"
proof -
  have s: "upload_Sheets example_upload_renamed = upload_Sheets example_upload"
    by (simp add: example_upload_renamed_def)
  have "upload_FileName example_upload_renamed \<noteq> upload_FileName example_upload"
    by (simp add: example_upload_renamed_def example_upload_def)
  with s fingerprint_of_ordered_sheets
         [where ?u2.0 = example_upload_renamed and ?u1.0 = example_upload and lib = example_lib]
  show ?thesis by simp
qed

section \<open>Properties: the import transaction\<close>


lemma pending_view_Add [simp]: "pending_view (Add c u) = apply_change (pending_view u) c"
  by (simp add: pending_view_def Add_def)

lemma pending_view_Update [simp]: "pending_view (Update c u) = apply_change (pending_view u) c"
  by (simp add: pending_view_def Update_def)

lemma pending_view_AddRange [simp]:
  "pending_view (AddRange b u) = foldl apply_change (pending_view u) (map AddSheetData b)"
  by (simp add: pending_view_def AddRange_def)

lemma foldl_AddSheetData:
  "foldl apply_change d (map AddSheetData b) = d\<lparr>SheetData := SheetData d @ b\<rparr>"
  by (induction b arbitrary: d) simp_all

lemma unchanged_Add [simp]:
  "commands (Add c u) = commands u" "transaction (Add c u) = transaction u"
  by (simp_all add: Add_def)

lemma unchanged_Update [simp]:
  "commands (Update c u) = commands u" "transaction (Update c u) = transaction u"
  by (simp_all add: Update_def)

lemma unchanged_AddRange [simp]:
  "commands (AddRange b u) = commands u" "transaction (AddRange b u) = transaction u"
  by (simp_all add: AddRange_def)

lemma SaveChangesAsync_view:
  "SaveChangesAsync env u = Inr u' \<Longrightarrow>
     pending_view u' = pending_view u \<and> database u' = pending_view u \<and> tracked u' = [] \<and>
     guids u' = guids u"
  by (auto simp: SaveChangesAsync_def command_def pending_view_def split: option.splits)


lemma SaveChangesAsync_healthy:
  "DbFault env (commands u) = None \<Longrightarrow> \<exists>u'. SaveChangesAsync env u = Inr u'"
  by (simp add: SaveChangesAsync_def command_def)


lemma CommitAsync_Inr:
  "CommitAsync env u = Inr u' \<Longrightarrow>
     database u' = database u \<and> tracked u' = tracked u \<and> transaction u' = None"
  by (auto simp: CommitAsync_def command_def split: option.splits)






lemma save_batches_rule:
  assumes run: "save_batches lib env sheetId data b i u = Some r"
    and stop: "\<And>u. Q u (Inr u)"
    and fail: "\<And>i u thrown.
       SaveChangesAsync env
         (AddRange (new_rows lib env sheetId i (guids u)
            (take (nat b) (drop (nat i) data))) u) = Inl thrown
       \<Longrightarrow> Q u (Inl thrown)"
    and step: "\<And>i u u2 r.
       SaveChangesAsync env
         (AddRange (new_rows lib env sheetId i (guids u)
            (take (nat b) (drop (nat i) data))) u) = Inr u2
       \<Longrightarrow> Q u2 r \<Longrightarrow> Q u r"
  shows "Q u r"
  using run stop fail step
proof (induction rule: save_batches.raw_induct [rotated 1, consumes 1])
  case (1 f lib env sheetId data b i u r)
  show ?case
  proof (cases "i < int (length data)")
    case False
    with 1(2) have "r = Inr u" by simp
    then show ?thesis by (simp add: 1(3))
  next
    case True
    let ?u1 = "AddRange (new_rows lib env sheetId i (guids u)
            (take (nat b) (drop (nat i) data))) u"
    from 1(2) True have r: "(case SaveChangesAsync env ?u1 of Inl thrown \<Rightarrow> Some (Inl thrown)
        | Inr u2 \<Rightarrow> f lib env sheetId data b (int32 (i + b)) u2) = Some r"
      by (simp add: Let_def)
    show ?thesis
    proof (cases "SaveChangesAsync env ?u1")
      case (Inl thrown)
      with r have "r = Inl thrown" by simp
      with 1(4) [OF Inl] show ?thesis by simp
    next
      case (Inr u2)
      with r have "f lib env sheetId data b (int32 (i + b)) u2 = Some r"
        by simp
      then have "Q u2 r" using 1(3) 1(4) 1(5) by (rule 1(1))
      with 1(5) [OF Inr] show ?thesis .
    qed
  qed
qed



lemma new_rows_written:
  "sd \<in> set (new_rows lib env sheetId i g batch) \<Longrightarrow> written lib (set batch) sd"
  by (auto simp: new_rows_def written_def in_set_enumerate_eq)

lemma written_mono: "written lib D sd \<Longrightarrow> D \<subseteq> D' \<Longrightarrow> written lib D' sd"
  by (auto simp: written_def)

lemma grows_refl: "grows lib D u (Inr u)"
  by (simp add: grows_def)

lemma grows_trans:
  "grows lib D u (Inr u1) \<Longrightarrow> grows lib D u1 r \<Longrightarrow> grows lib D u r"
  by (cases r) (auto simp: grows_def)

lemma grows_mono: "grows lib D u r \<Longrightarrow> D \<subseteq> D' \<Longrightarrow> grows lib D' u r"
  by (cases r) (auto simp: grows_def intro: written_mono)

lemma grows_batch:
  assumes "SaveChangesAsync env
         (AddRange (new_rows lib env sheetId i (guids u)
            (take (nat n) (drop (nat i) data))) u) = Inr u2"
  shows "grows lib (set data) u (Inr u2)"
proof -
  have sub: "set (take (nat n) (drop (nat i) data)) \<subseteq> set data"
    by (meson set_take_subset set_drop_subset subset_trans)
  from SaveChangesAsync_view [OF assms]
  have "pending_view u2 = foldl apply_change (pending_view u)
          (map AddSheetData (new_rows lib env sheetId i (guids u)
            (take (nat n) (drop (nat i) data))))"
    by simp
  then show ?thesis
    using sub by (auto simp: grows_def foldl_AddSheetData dest!: new_rows_written intro: written_mono)
qed

lemma save_batches_grows:
  assumes "save_batches lib env sheetId data b i u = Some r"
  shows "grows lib (set data) u r"
proof (rule save_batches_rule [OF assms])
  show "\<And>u. grows lib (set data) u (Inr u)" by (rule grows_refl)
next
  fix i u thrown
  show "grows lib (set data) u (Inl thrown)" by (simp add: grows_def)
next
  fix i u u2 r
  assume a: "SaveChangesAsync env
         (AddRange (new_rows lib env sheetId i (guids u)
            (take (nat b) (drop (nat i) data))) u) = Inr u2"
    and b: "grows lib (set data) u2 r"
  from grows_batch [OF a] b show "grows lib (set data) u r" by (rule grows_trans)
qed

lemma SaveSheetDataAsync_cases:
  assumes "SaveSheetDataAsync lib env sessionId sheetData sheetIndex u = Some r"
  obtains thrown where
      "SaveChangesAsync env
         (Add (AddSheet (new_sheet sessionId sheetData sheetIndex (NewGuid env (guids u)))) u)
         = Inl thrown" "r = Inl thrown"
  | u2 e where
      "SaveChangesAsync env
         (Add (AddSheet (new_sheet sessionId sheetData sheetIndex (NewGuid env (guids u)))) u)
         = Inr u2" "BulkInsertBatchSize env = Inl e" "r = Inl (e, u2)"
  | u2 b sid where
      "SaveChangesAsync env
         (Add (AddSheet (new_sheet sessionId sheetData sheetIndex (NewGuid env (guids u)))) u)
         = Inr u2" "BulkInsertBatchSize env = Inr b"
      "save_batches lib env sid (dto_Data sheetData) b 0 u2 = Some r"
  using assms
  by (auto simp: SaveSheetDataAsync_def Let_def split: sum.splits)


lemma SaveSheetDataAsync_grows:
  assumes "SaveSheetDataAsync lib env sessionId sheetData sheetIndex u = Some r"
  shows "grows lib (set (dto_Data sheetData)) u r"
  using assms
proof (cases rule: SaveSheetDataAsync_cases)
  case (1 thrown)
  then show ?thesis by (simp add: grows_def)
next
  case (2 u2 e)
  then show ?thesis by (simp add: grows_def)
next
  case (3 u2 b sid)
  have "grows lib (set (dto_Data sheetData)) u (Inr u2)"
    using SaveChangesAsync_view [OF 3(1)] by (simp add: grows_def)
  moreover from 3 have "grows lib (set (dto_Data sheetData)) u2 r"
    using save_batches_grows by blast
  ultimately show ?thesis by (rule grows_trans)
qed



lemma save_sheets_grows:
  "save_sheets lib env sessionId sheets sheetIndex u = Some r \<Longrightarrow>
   grows lib (\<Union>(name, sheet) \<in> set sheets. set (dto_Data sheet)) u r"
proof (induction sheets arbitrary: sheetIndex u)
  case Nil
  then show ?case by (auto simp: grows_def)
next
  case (Cons sheetKvp sheets)
  let ?D = "\<Union>(name, sheet) \<in> set (sheetKvp # sheets). set (dto_Data sheet)"
  from Cons.prems obtain r1 where
    r1: "SaveSheetDataAsync lib env sessionId (snd sheetKvp) sheetIndex u = Some r1"
    by (auto split: option.splits)
  show ?case
  proof (cases r1)
    case (Inl thrown)
    with Cons.prems r1 have "r = Inl thrown" by simp
    then show ?thesis by (simp add: grows_def)
  next
    case (Inr u')
    with Cons.prems r1 have "save_sheets lib env sessionId sheets (sheetIndex + 1) u' = Some r"
      by simp
    then have "grows lib (\<Union>(name, sheet) \<in> set sheets. set (dto_Data sheet)) u' r"
      by (rule Cons.IH)
    then have a: "grows lib ?D u' r" by (rule grows_mono) auto
    have "grows lib (set (dto_Data (snd sheetKvp))) u (Inr u')"
      using SaveSheetDataAsync_grows [OF r1] Inr by simp
    then have "grows lib ?D u (Inr u')" by (rule grows_mono) (auto simp: case_prod_beta)
    then show ?thesis using a by (rule grows_trans)
  qed
qed


lemma add_excluded_props:
  "commands (add_excluded sessionId env names u) = commands u \<and>
   transaction (add_excluded sessionId env names u) = transaction u \<and>
   ImportSessions (pending_view (add_excluded sessionId env names u)) = ImportSessions (pending_view u) \<and>
   SheetData (pending_view (add_excluded sessionId env names u)) = SheetData (pending_view u)"
  by (induction names arbitrary: u) simp_all

lemma new_session_Inr:
  assumes "new_session env uploadData fileHash g = Inr session"
  shows "session_Id session = g" "session_FileHash session = Some fileHash"
  using assms by (auto simp: new_session_def split: sum.splits)






lemma import_transaction_commit:
  assumes run: "import_transaction lib env uploadData fileHash u = Some (Inr (response, u'))"
    and clean: "tracked u = []"
    and db: "database u = db"
  shows "\<exists>session. new_session env uploadData fileHash (NewGuid env (guids u)) = Inr session \<and>
           ImportSessions (database u') =
             map (completed (NewGuid env (guids u)) (int32 (ElapsedMilliseconds env)))
               (ImportSessions db @ [session])"
    and "\<forall>sd \<in> set (SheetData (database u')).
           sd \<in> set (SheetData db) \<or> written lib (upload_rows uploadData) sd"
    and "response_SessionId response = NewGuid env (guids u)"
proof -
  from run obtain session where
    session: "new_session env uploadData fileHash (NewGuid env (guids u)) = Inr session"
    by (auto simp: import_transaction_def split: sum.splits)
  let ?u1 = "Add (AddSession session) u"
  let ?c = "UpdateSession (session_Id session) ''Completed''
              (Some (int32 (ElapsedMilliseconds env)))"
  have sid: "session_Id session = NewGuid env (guids u)" using new_session_Inr(1) [OF session] .
  from run session obtain u2 where u2: "SaveChangesAsync env ?u1 = Inr u2"
    by (auto simp: import_transaction_def split: sum.splits)
  let ?u3 = "add_excluded (session_Id session) env
               (metadata_ExcludedSheets (upload_Metadata uploadData)) u2"
  from run session u2 obtain u4 where
    u4: "save_sheets lib env (session_Id session) (upload_Sheets uploadData) 0 ?u3
           = Some (Inr u4)"
    by (auto simp: import_transaction_def split: sum.splits option.splits)
  from run session u2 u4 obtain u6 where u6: "SaveChangesAsync env (Update ?c u4) = Inr u6"
    by (auto simp: import_transaction_def split: sum.splits)
  from run session u2 u4 u6 have u7: "CommitAsync env u6 = Inr u'"
    and resp: "response_SessionId response = session_Id session"
    by (auto simp: import_transaction_def split: sum.splits)
  have v1: "pending_view u = db"
    using clean db by (simp add: pending_view_def)
  have v2: "pending_view u2 = pending_view ?u1" using SaveChangesAsync_view [OF u2] by simp
  have g: "grows lib (upload_rows uploadData) ?u3 (Inr u4)"
    using save_sheets_grows [OF u4] by (simp add: upload_rows_def)
  have s4: "ImportSessions (pending_view u4) = ImportSessions db @ [session]"
    using g by (simp add: grows_def add_excluded_props v2 v1)
  have r4: "\<forall>sd \<in> set (SheetData (pending_view u4)).
              sd \<in> set (SheetData db) \<or> written lib (upload_rows uploadData) sd"
    using g by (simp add: grows_def add_excluded_props v2 v1)
  from CommitAsync_Inr [OF u7] have c7: "database u' = database u6" by simp
  have st: "database u' = apply_change (pending_view u4) ?c"
    using SaveChangesAsync_view [OF u6] c7 by simp
  show "\<exists>session. new_session env uploadData fileHash (NewGuid env (guids u)) = Inr session \<and>
           ImportSessions (database u') =
             map (completed (NewGuid env (guids u)) (int32 (ElapsedMilliseconds env)))
               (ImportSessions db @ [session])"
    using session unfolding st by (simp add: s4 sid completed_def [abs_def])
  show "\<forall>sd \<in> set (SheetData (database u')).
           sd \<in> set (SheetData db) \<or> written lib (upload_rows uploadData) sd"
    unfolding st using r4 by simp
  show "response_SessionId response = NewGuid env (guids u)"
    using resp sid by simp
qed


lemma FileHash_completed [simp]: "session_FileHash (completed g ms s) = session_FileHash s"
  by (simp add: completed_def)

lemma Id_completed [simp]: "session_Id (completed g ms s) = session_Id s"
  by (simp add: completed_def)







lemma SaveExcelDataAsync_duplicate:
  assumes "find (\<lambda>s. session_FileHash s = Some (CalculateFileHash lib uploadData))
             (ImportSessions db) = Some existing"
  shows "SaveExcelDataAsync lib env db uploadData = Some (Inr (duplicate_response existing), db)"
  using assms by (simp add: SaveExcelDataAsync_def Let_def duplicate_response_def)

lemma SaveExcelDataAsync_new:
  assumes "find (\<lambda>s. session_FileHash s = Some (CalculateFileHash lib uploadData))
             (ImportSessions db) = None"
  shows "SaveExcelDataAsync lib env db uploadData =
           transactional_import lib env db uploadData (CalculateFileHash lib uploadData)"
  using assms by (simp add: SaveExcelDataAsync_def Let_def)

lemma transactional_import_begin:
  "transactional_import lib env db uploadData fileHash =
     (case DbFault env 0 of
        Some e \<Rightarrow> Some (Inl e, db)
      | None \<Rightarrow>
          (case import_transaction lib env uploadData fileHash (begun db) of
             None \<Rightarrow> None
           | Some (Inl (e, u2)) \<Rightarrow>
               (case rollback_and_rethrow env e u2 of
                  (e', u3) \<Rightarrow> Some (Inl e', database (Dispose u3)))
           | Some (Inr (response, u2)) \<Rightarrow> Some (Inr response, database (Dispose u2))))"
  by (simp add: transactional_import_def BeginTransactionAsync_def command_def begun_def
        split: option.splits)

lemma import_transaction_ended:
  assumes "import_transaction lib env uploadData fileHash u = Some (Inr (response, u'))"
  shows "transaction u' = None"
proof -
  from assms obtain u6 where "CommitAsync env u6 = Inr u'"
    by (auto simp: import_transaction_def split: sum.splits option.splits)
  from CommitAsync_Inr [OF this] show ?thesis by simp
qed

lemma transactional_import_Inr:
  assumes "transactional_import lib env db uploadData fileHash = Some (Inr response, db')"
  shows "\<exists>u'. import_transaction lib env uploadData fileHash (begun db)
                 = Some (Inr (response, u')) \<and> db' = database u'"
proof -
  from assms obtain u' where
    run: "import_transaction lib env uploadData fileHash (begun db) = Some (Inr (response, u'))"
    and db': "db' = database (Dispose u')"
    by (auto simp: transactional_import_begin split: option.splits sum.splits prod.splits)
  from import_transaction_ended [OF run] db' have "db' = database u'"
    by (simp add: Dispose_def)
  with run show ?thesis by blast
qed









section \<open>Properties: the row codec\<close>

lemma Item_tagged:
  "Item props ''ValueKind'' = Some vk \<Longrightarrow>
   ConvertLegacyValue lib (JObject props) =
     (case Value_int lib vk of Inl e \<Rightarrow> Inl e | Inr valueKind \<Rightarrow> ConvertTagged lib props valueKind)"
  by (simp add: ConvertLegacyValue_def split: sum.splits)

lemma ConvertLegacyValue_tagged:
  assumes "Item props ''ValueKind'' = Some (JInteger k)" "is_Int32 k"
  shows "ConvertLegacyValue lib (JObject props) = ConvertTagged lib props k"
  using assms by (simp add: Item_tagged Value_int_def)

lemma bit_length_le: "n < 2 ^ k \<Longrightarrow> bit_length n \<le> k"
proof (induction k arbitrary: n)
  case 0
  then show ?case by (simp add: bit_length.simps)
next
  case (Suc k)
  show ?case
  proof (cases "n \<le> 0")
    case True
    then show ?thesis by (simp add: bit_length.simps)
  next
    case False
    have "n div 2 < 2 ^ k" using Suc.prems by simp
    from Suc.IH [OF this] False show ?thesis by (subst bit_length.simps) simp
  qed
qed

lemma Int64_ToDouble_exact:
  assumes "\<bar>n\<bar> \<le> 9007199254740992"
  shows "Int64_ToDouble n = of_int n"
proof (cases "\<bar>n\<bar> = 9007199254740992")
  case True
  then have "n = 9007199254740992 \<or> n = - 9007199254740992" by linarith
  moreover have "Int64_ToDouble 9007199254740992 = 9007199254740992"
    "Int64_ToDouble (- 9007199254740992) = - 9007199254740992"
    by code_simp+
  ultimately show ?thesis by auto
next
  case False
  with assms have "\<bar>n\<bar> < 2 ^ 53" by simp
  then have "bit_length \<bar>n\<bar> - 53 = 0" using bit_length_le by simp
  then have "Int64_ToDouble n = of_int (sgn n * \<bar>n\<bar>)"
    by (simp add: Int64_ToDouble_def Let_def)
  then show ?thesis by (simp add: mult_sgn_abs)
qed

lemma tagged_Number_Integer:
  assumes "Item props ''ValueKind'' = Some (JInteger 4)"
    and "Item props ''Value'' = Some (JInteger n)"
  shows "ConvertLegacyValue lib (JObject props) =
           (if is_Int64 n then Inr (VDouble (Int64_ToDouble n)) else Inl InvalidCastException)"
  using assms
  by (simp add: ConvertLegacyValue_tagged is_Int32_def ConvertTagged_def Value_double_def)

text \<open>
  Claim C4, as amended. The values are those of the tokens \<open>JObject.Parse\<close> makes of the
  stored text. For a tagged object whose discriminator is an integer in the 32-bit range:
  String with a non-empty String token as raw value decodes to that string, and with no raw
  value, a \<open>null\<close> raw value or an empty raw string to \<open>"N/A"\<close>; Null and Undefined
  decode to \<open>"N/A"\<close>; Number decodes to the raw number as a double (a Float token as it
  is, an Integer token of the 64-bit range converted, exactly up to \<open>2^53\<close>), to 0 when it
  is absent, and throws on an integer outside the 64-bit range; True and False decode to the
  booleans; any other discriminator decodes to \<open>"N/A"\<close>; a discriminator outside the
  32-bit range throws. A plain String, Float, Boolean or Null token decodes as itself, and
  so does a plain Integer token of the 64-bit range, a larger one throws; every other plain
  token (an array, an untagged object, and the Date token the parser makes of a string in
  ISO date format) decodes to the text \<open>ToString()\<close> gives for it.
\<close>

theorem legacy_value_decoding:
  "(Item props ''ValueKind'' = Some (JInteger k) \<and> is_Int32 k \<longrightarrow>
      (k = 3 \<and> Item props ''Value'' = None \<longrightarrow>
         ConvertLegacyValue lib (JObject props) = Inr (VString ''N/A'')) \<and>
      (k = 3 \<and> Item props ''Value'' = Some (JString s) \<and> s \<noteq> [] \<longrightarrow>
         ConvertLegacyValue lib (JObject props) = Inr (VString s)) \<and>
      (k = 3 \<and> Item props ''Value'' = Some (JString []) \<longrightarrow>
         ConvertLegacyValue lib (JObject props) = Inr (VString ''N/A'')) \<and>
      (k = 3 \<and> Item props ''Value'' = Some JNull \<longrightarrow>
         ConvertLegacyValue lib (JObject props) = Inr (VString ''N/A'')) \<and>
      (k = 7 \<or> k = 0 \<longrightarrow>
         ConvertLegacyValue lib (JObject props) = Inr (VString ''N/A'')) \<and>
      (k = 4 \<and> Item props ''Value'' = None \<longrightarrow>
         ConvertLegacyValue lib (JObject props) = Inr (VDouble 0)) \<and>
      (k = 4 \<and> Item props ''Value'' = Some (JFloat d) \<longrightarrow>
         ConvertLegacyValue lib (JObject props) = Inr (VDouble d)) \<and>
      (k = 4 \<and> Item props ''Value'' = Some (JInteger n) \<and> \<bar>n\<bar> \<le> 9007199254740992 \<longrightarrow>
         ConvertLegacyValue lib (JObject props) = Inr (VDouble (of_int n))) \<and>
      (k = 4 \<and> Item props ''Value'' = Some (JInteger n) \<and> is_Int64 n \<longrightarrow>
         ConvertLegacyValue lib (JObject props) = Inr (VDouble (Int64_ToDouble n))) \<and>
      (k = 4 \<and> Item props ''Value'' = Some (JInteger n) \<and> \<not> is_Int64 n \<longrightarrow>
         ConvertLegacyValue lib (JObject props) = Inl InvalidCastException) \<and>
      (k = 5 \<longrightarrow> ConvertLegacyValue lib (JObject props) = Inr (VBool True)) \<and>
      (k = 6 \<longrightarrow> ConvertLegacyValue lib (JObject props) = Inr (VBool False)) \<and>
      (k \<noteq> 3 \<and> k \<noteq> 4 \<and> k \<noteq> 5 \<and> k \<noteq> 6 \<longrightarrow>
         ConvertLegacyValue lib (JObject props) = Inr (VString ''N/A''))) \<and>
   (Item props ''ValueKind'' = Some (JInteger k) \<and> \<not> is_Int32 k \<longrightarrow>
      (\<exists>e. ConvertLegacyValue lib (JObject props) = Inl e)) \<and>
   ConvertLegacyValue lib (JString s) = Inr (VString s) \<and>
   ConvertLegacyValue lib (JFloat d) = Inr (VDouble d) \<and>
   ConvertLegacyValue lib (JBoolean b) = Inr (VBool b) \<and>
   ConvertLegacyValue lib JNull = Inr VNull \<and>
   (is_Int64 n \<longrightarrow> ConvertLegacyValue lib (JInteger n) = Inr (VLong n)) \<and>
   (\<not> is_Int64 n \<longrightarrow> ConvertLegacyValue lib (JInteger n) = Inl InvalidCastException) \<and>
   ConvertLegacyValue lib (JOther t) = Inr (VString (JToken_ToString lib (JOther t))) \<and>
   ConvertLegacyValue lib (JArray ts) = Inr (VString (JToken_ToString lib (JArray ts))) \<and>
   (Item props ''ValueKind'' = None \<longrightarrow>
      ConvertLegacyValue lib (JObject props) = Inr (VString (JToken_ToString lib (JObject props))))"
proof -
  have tagged:
    "Item props ''ValueKind'' = Some (JInteger k) \<and> is_Int32 k \<longrightarrow>
      (k = 3 \<and> Item props ''Value'' = None \<longrightarrow>
         ConvertLegacyValue lib (JObject props) = Inr (VString ''N/A'')) \<and>
      (k = 3 \<and> Item props ''Value'' = Some (JString s) \<and> s \<noteq> [] \<longrightarrow>
         ConvertLegacyValue lib (JObject props) = Inr (VString s)) \<and>
      (k = 3 \<and> Item props ''Value'' = Some (JString []) \<longrightarrow>
         ConvertLegacyValue lib (JObject props) = Inr (VString ''N/A'')) \<and>
      (k = 3 \<and> Item props ''Value'' = Some JNull \<longrightarrow>
         ConvertLegacyValue lib (JObject props) = Inr (VString ''N/A'')) \<and>
      (k = 7 \<or> k = 0 \<longrightarrow>
         ConvertLegacyValue lib (JObject props) = Inr (VString ''N/A'')) \<and>
      (k = 4 \<and> Item props ''Value'' = None \<longrightarrow>
         ConvertLegacyValue lib (JObject props) = Inr (VDouble 0)) \<and>
      (k = 4 \<and> Item props ''Value'' = Some (JFloat d) \<longrightarrow>
         ConvertLegacyValue lib (JObject props) = Inr (VDouble d)) \<and>
      (k = 4 \<and> Item props ''Value'' = Some (JInteger n) \<and> \<bar>n\<bar> \<le> 9007199254740992 \<longrightarrow>
         ConvertLegacyValue lib (JObject props) = Inr (VDouble (of_int n))) \<and>
      (k = 4 \<and> Item props ''Value'' = Some (JInteger n) \<and> is_Int64 n \<longrightarrow>
         ConvertLegacyValue lib (JObject props) = Inr (VDouble (Int64_ToDouble n))) \<and>
      (k = 4 \<and> Item props ''Value'' = Some (JInteger n) \<and> \<not> is_Int64 n \<longrightarrow>
         ConvertLegacyValue lib (JObject props) = Inl InvalidCastException) \<and>
      (k = 5 \<longrightarrow> ConvertLegacyValue lib (JObject props) = Inr (VBool True)) \<and>
      (k = 6 \<longrightarrow> ConvertLegacyValue lib (JObject props) = Inr (VBool False)) \<and>
      (k \<noteq> 3 \<and> k \<noteq> 4 \<and> k \<noteq> 5 \<and> k \<noteq> 6 \<longrightarrow>
         ConvertLegacyValue lib (JObject props) = Inr (VString ''N/A''))"
  proof (rule impI)
    assume a: "Item props ''ValueKind'' = Some (JInteger k) \<and> is_Int32 k"
    then have t: "ConvertLegacyValue lib (JObject props) = ConvertTagged lib props k"
      by (simp add: ConvertLegacyValue_tagged)
    have exact: "k = 4 \<and> Item props ''Value'' = Some (JInteger n) \<and> \<bar>n\<bar> \<le> 9007199254740992 \<longrightarrow>
         ConvertLegacyValue lib (JObject props) = Inr (VDouble (of_int n))"
    proof (rule impI)
      assume b: "k = 4 \<and> Item props ''Value'' = Some (JInteger n) \<and> \<bar>n\<bar> \<le> 9007199254740992"
      then have "is_Int64 n" by (auto simp: is_Int64_def)
      with a b show "ConvertLegacyValue lib (JObject props) = Inr (VDouble (of_int n))"
        by (simp add: tagged_Number_Integer Int64_ToDouble_exact)
    qed
    have rest: "(k = 3 \<and> Item props ''Value'' = None \<longrightarrow>
         ConvertLegacyValue lib (JObject props) = Inr (VString ''N/A'')) \<and>
      (k = 3 \<and> Item props ''Value'' = Some (JString s) \<and> s \<noteq> [] \<longrightarrow>
         ConvertLegacyValue lib (JObject props) = Inr (VString s)) \<and>
      (k = 3 \<and> Item props ''Value'' = Some (JString []) \<longrightarrow>
         ConvertLegacyValue lib (JObject props) = Inr (VString ''N/A'')) \<and>
      (k = 3 \<and> Item props ''Value'' = Some JNull \<longrightarrow>
         ConvertLegacyValue lib (JObject props) = Inr (VString ''N/A'')) \<and>
      (k = 7 \<or> k = 0 \<longrightarrow>
         ConvertLegacyValue lib (JObject props) = Inr (VString ''N/A'')) \<and>
      (k = 4 \<and> Item props ''Value'' = None \<longrightarrow>
         ConvertLegacyValue lib (JObject props) = Inr (VDouble 0)) \<and>
      (k = 4 \<and> Item props ''Value'' = Some (JFloat d) \<longrightarrow>
         ConvertLegacyValue lib (JObject props) = Inr (VDouble d))"
      unfolding t
      by (simp add: ConvertTagged_def Value_string_def Value_double_def IsNullOrEmpty_def)
    have rest2: "(k = 4 \<and> Item props ''Value'' = Some (JInteger n) \<and> is_Int64 n \<longrightarrow>
         ConvertLegacyValue lib (JObject props) = Inr (VDouble (Int64_ToDouble n))) \<and>
      (k = 4 \<and> Item props ''Value'' = Some (JInteger n) \<and> \<not> is_Int64 n \<longrightarrow>
         ConvertLegacyValue lib (JObject props) = Inl InvalidCastException) \<and>
      (k = 5 \<longrightarrow> ConvertLegacyValue lib (JObject props) = Inr (VBool True)) \<and>
      (k = 6 \<longrightarrow> ConvertLegacyValue lib (JObject props) = Inr (VBool False)) \<and>
      (k \<noteq> 3 \<and> k \<noteq> 4 \<and> k \<noteq> 5 \<and> k \<noteq> 6 \<longrightarrow>
         ConvertLegacyValue lib (JObject props) = Inr (VString ''N/A''))"
      unfolding t
      by (simp add: ConvertTagged_def Value_double_def)
    from rest rest2 exact
    show "(k = 3 \<and> Item props ''Value'' = None \<longrightarrow>
         ConvertLegacyValue lib (JObject props) = Inr (VString ''N/A'')) \<and>
      (k = 3 \<and> Item props ''Value'' = Some (JString s) \<and> s \<noteq> [] \<longrightarrow>
         ConvertLegacyValue lib (JObject props) = Inr (VString s)) \<and>
      (k = 3 \<and> Item props ''Value'' = Some (JString []) \<longrightarrow>
         ConvertLegacyValue lib (JObject props) = Inr (VString ''N/A'')) \<and>
      (k = 3 \<and> Item props ''Value'' = Some JNull \<longrightarrow>
         ConvertLegacyValue lib (JObject props) = Inr (VString ''N/A'')) \<and>
      (k = 7 \<or> k = 0 \<longrightarrow>
         ConvertLegacyValue lib (JObject props) = Inr (VString ''N/A'')) \<and>
      (k = 4 \<and> Item props ''Value'' = None \<longrightarrow>
         ConvertLegacyValue lib (JObject props) = Inr (VDouble 0)) \<and>
      (k = 4 \<and> Item props ''Value'' = Some (JFloat d) \<longrightarrow>
         ConvertLegacyValue lib (JObject props) = Inr (VDouble d)) \<and>
      (k = 4 \<and> Item props ''Value'' = Some (JInteger n) \<and> \<bar>n\<bar> \<le> 9007199254740992 \<longrightarrow>
         ConvertLegacyValue lib (JObject props) = Inr (VDouble (of_int n))) \<and>
      (k = 4 \<and> Item props ''Value'' = Some (JInteger n) \<and> is_Int64 n \<longrightarrow>
         ConvertLegacyValue lib (JObject props) = Inr (VDouble (Int64_ToDouble n))) \<and>
      (k = 4 \<and> Item props ''Value'' = Some (JInteger n) \<and> \<not> is_Int64 n \<longrightarrow>
         ConvertLegacyValue lib (JObject props) = Inl InvalidCastException) \<and>
      (k = 5 \<longrightarrow> ConvertLegacyValue lib (JObject props) = Inr (VBool True)) \<and>
      (k = 6 \<longrightarrow> ConvertLegacyValue lib (JObject props) = Inr (VBool False)) \<and>
      (k \<noteq> 3 \<and> k \<noteq> 4 \<and> k \<noteq> 5 \<and> k \<noteq> 6 \<longrightarrow>
         ConvertLegacyValue lib (JObject props) = Inr (VString ''N/A''))"
      by blast
  qed
  have range: "Item props ''ValueKind'' = Some (JInteger k) \<and> \<not> is_Int32 k \<longrightarrow>
      (\<exists>e. ConvertLegacyValue lib (JObject props) = Inl e)"
    by (simp add: Item_tagged Value_int_def)
  have plain:
    "ConvertLegacyValue lib (JString s) = Inr (VString s)"
    "ConvertLegacyValue lib (JFloat d) = Inr (VDouble d)"
    "ConvertLegacyValue lib (JBoolean b) = Inr (VBool b)"
    "ConvertLegacyValue lib JNull = Inr VNull"
    by (simp_all add: ConvertLegacyValue_def)
  have long: "is_Int64 n \<longrightarrow> ConvertLegacyValue lib (JInteger n) = Inr (VLong n)"
    "\<not> is_Int64 n \<longrightarrow> ConvertLegacyValue lib (JInteger n) = Inl InvalidCastException"
    by (simp_all add: ConvertLegacyValue_def Value_long_def)
  have other:
    "ConvertLegacyValue lib (JOther t) = Inr (VString (JToken_ToString lib (JOther t)))"
    "ConvertLegacyValue lib (JArray ts) = Inr (VString (JToken_ToString lib (JArray ts)))"
    "Item props ''ValueKind'' = None \<longrightarrow>
      ConvertLegacyValue lib (JObject props) = Inr (VString (JToken_ToString lib (JObject props)))"
    by (simp_all add: ConvertLegacyValue_def)
  show ?thesis
    by (intro conjI tagged range plain long other)
qed

text \<open>
  Claim C4 fails: a String discriminator with the empty string as raw value decodes to
  \<open>"N/A"\<close>, not to the raw value; a Number discriminator with an integer beyond the
  64-bit range, a plain integer beyond that range, and a discriminator beyond the 32-bit
  range do not decode at all, the conversion throws.
\<close>

theorem legacy_empty_string_counterexample:
  "ConvertLegacyValue example_lib (JObject [(''ValueKind'', JInteger 3), (''Value'', JString [])])
     = Inr (VString ''N/A'') \<and>
   ConvertLegacyValue example_lib (JObject [(''ValueKind'', JInteger 3), (''Value'', JString [])])
     \<noteq> Inr (VString []) \<and>
   ConvertLegacyValue example_lib
     (JObject [(''ValueKind'', JInteger 4), (''Value'', JInteger 9223372036854775808)])
     = Inl InvalidCastException \<and>
   ConvertLegacyValue example_lib (JInteger 9223372036854775808) = Inl InvalidCastException \<and>
   ConvertLegacyValue example_lib (JObject [(''ValueKind'', JInteger 4294967299)])
     = Inl OverflowException"
  by (simp add: ConvertLegacyValue_def Item_def Value_int_def ConvertTagged_def Value_string_def
        Value_double_def Value_long_def IsNullOrEmpty_def is_Int32_def is_Int64_def)

theorem legacy_value_decoding_witness:
  "ConvertLegacyValue example_lib
     (JObject [(''ValueKind'', JInteger 4), (''Value'', JFloat 12.5)]) = Inr (VDouble 12.5) \<and>
   ConvertLegacyValue example_lib
     (JObject [(''ValueKind'', JInteger 4), (''Value'', JInteger 100)]) = Inr (VDouble 100) \<and>
   ConvertLegacyValue example_lib
     (JObject [(''ValueKind'', JInteger 4), (''Value'', JInteger 9223372036854775808)])
     = Inl InvalidCastException \<and>
   ConvertLegacyValue example_lib (JObject [(''ValueKind'', JInteger 3)]) = Inr (VString ''N/A'') \<and>
   ConvertLegacyValue example_lib (JObject [(''ValueKind'', JInteger 7)]) = Inr (VString ''N/A'') \<and>
   ConvertLegacyValue example_lib (JObject [(''ValueKind'', JInteger 5)]) = Inr (VBool True) \<and>
   ConvertLegacyValue example_lib
     (JObject [(''ValueKind'', JInteger 3), (''Value'', JString ''Acme'')]) = Inr (VString ''Acme'') \<and>
   (\<exists>e. ConvertLegacyValue example_lib (JObject [(''ValueKind'', JInteger 4294967299)]) = Inl e) \<and>
   ConvertLegacyValue example_lib (JInteger 100) = Inr (VLong 100) \<and>
   ConvertLegacyValue example_lib (JObject [(''Name'', JString ''Acme'')]) =
     Inr (VString (JToken_ToString example_lib (JObject [(''Name'', JString ''Acme'')])))"
proof -
  show ?thesis
    using
      legacy_value_decoding
        [where props = "[(''ValueKind'', JInteger 4), (''Value'', JFloat 12.5)]" and k = 4
           and lib = example_lib and d = "12.5" and n = 100]
      legacy_value_decoding
        [where props = "[(''ValueKind'', JInteger 4), (''Value'', JInteger 100)]" and k = 4
           and lib = example_lib and n = 100]
      legacy_value_decoding
        [where props = "[(''ValueKind'', JInteger 4), (''Value'', JInteger 9223372036854775808)]"
           and k = 4 and lib = example_lib and n = 9223372036854775808]
      legacy_value_decoding
        [where props = "[(''ValueKind'', JInteger 3)]" and k = 3 and lib = example_lib]
      legacy_value_decoding
        [where props = "[(''ValueKind'', JInteger 7)]" and k = 7 and lib = example_lib]
      legacy_value_decoding
        [where props = "[(''ValueKind'', JInteger 5)]" and k = 5 and lib = example_lib]
      legacy_value_decoding
        [where props = "[(''ValueKind'', JInteger 3), (''Value'', JString ''Acme'')]" and k = 3
           and lib = example_lib and s = "''Acme''"]
      legacy_value_decoding
        [where props = "[(''ValueKind'', JInteger 4294967299)]" and k = 4294967299
           and lib = example_lib]
      legacy_value_decoding
        [where props = "[(''Name'', JString ''Acme'')]" and lib = example_lib]
    by (simp add: Item_def is_Int32_def is_Int64_def)
qed

text \<open>
  Claim C5. \<open>ConvertLegacyData\<close> returns a mapping for every string: when the text does
  not parse as a JSON object, or anything else in the decoding throws, it is the empty
  mapping. The sheet detail of a sheet whose headers can be read returns with one decoded
  row per stored row, and a search whose page the store delivers returns, a row that does
  not parse being a result with no fields.
\<close>

theorem row_decode_never_raises:
  "(JObject_Parse lib jsonString = Inl e \<longrightarrow> ConvertLegacyData lib jsonString = []) \<and>
   (ConvertLegacyData_try lib jsonString = Inl e' \<longrightarrow> ConvertLegacyData lib jsonString = []) \<and>
   (find (\<lambda>s. sheet_Id s = sheetId) (Sheets db) = Some sheet \<and>
    headers_out lib (sheet_Headers sheet) = Inr hs \<longrightarrow>
      (\<exists>dto. GetSheetDetailAsync lib db sheetId = Inr (Some dto) \<and>
             sheetDetail_Data dto =
               map (\<lambda>sd. ConvertLegacyData lib (row_RowData sd))
                 (sort_key row_RowIndex (sheet_SheetDataRows db sheetId)))) \<and>
   (search_page db searchRequest = Inr rows \<longrightarrow>
      (\<exists>r. SearchDataAsync lib db searchRequest = Inr r \<and>
           page_Data r = map (search_result lib) rows \<and>
           (\<forall>sd sheet' session. (sd, sheet', session) \<in> set rows \<and>
               JObject_Parse lib (row_RowData sd) = Inl e \<longrightarrow>
               result_RowData (search_result lib (sd, sheet', session)) = [])))"
proof (intro conjI impI)
  assume "JObject_Parse lib jsonString = Inl e"
  then show "ConvertLegacyData lib jsonString = []"
    by (simp add: ConvertLegacyData_def ConvertLegacyData_try_def)
next
  assume "ConvertLegacyData_try lib jsonString = Inl e'"
  then show "ConvertLegacyData lib jsonString = []"
    by (simp add: ConvertLegacyData_def)
next
  assume "find (\<lambda>s. sheet_Id s = sheetId) (Sheets db) = Some sheet \<and>
    headers_out lib (sheet_Headers sheet) = Inr hs"
  then show "\<exists>dto. GetSheetDetailAsync lib db sheetId = Inr (Some dto) \<and>
             sheetDetail_Data dto =
               map (\<lambda>sd. ConvertLegacyData lib (row_RowData sd))
                 (sort_key row_RowIndex (sheet_SheetDataRows db sheetId))"
    by (simp add: GetSheetDetailAsync_found)
next
  assume "search_page db searchRequest = Inr rows"
  then show "\<exists>r. SearchDataAsync lib db searchRequest = Inr r \<and>
           page_Data r = map (search_result lib) rows \<and>
           (\<forall>sd sheet' session. (sd, sheet', session) \<in> set rows \<and>
               JObject_Parse lib (row_RowData sd) = Inl e \<longrightarrow>
               result_RowData (search_result lib (sd, sheet', session)) = [])"
    by (simp add: SearchDataAsync_def Let_def paged_sel search_result_def
          ConvertLegacyData_def ConvertLegacyData_try_def)
qed

section \<open>Properties: rows written by the import\<close>

lemma or_NA_not_null: "or_NA v \<noteq> VNull"
  by (cases v) (simp_all add: or_NA_def)

lemma convert_cell_not_null: "convert_cell c \<noteq> VNull"
  by (simp add: convert_cell_def or_NA_not_null)

lemma set_update_subset: "set (AList.update k v al) \<subseteq> insert (k, v) (set al)"
  by (induction al) auto

lemma loop_not_null:
  "(\<forall>(k, v) \<in> set acc. v \<noteq> VNull) \<Longrightarrow>
   (\<forall>(k, v) \<in> set (ConvertJsonElementsToValues_loop row acc). v \<noteq> VNull)"
proof (induction row arbitrary: acc)
  case Nil
  then show ?case by simp
next
  case (Cons kc row)
  obtain k c where kc: "kc = (k, c)" by (cases kc)
  have "\<forall>(k, v) \<in> set (AList.update k (convert_cell c) acc). v \<noteq> VNull"
    using Cons.prems set_update_subset [of k "convert_cell c" acc] convert_cell_not_null [of c]
    by auto
  from Cons.IH [OF this] show ?case by (simp add: kc)
qed

lemma update_fresh: "k \<notin> fst ` set al \<Longrightarrow> AList.update k v al = al @ [(k, v)]"
  by (induction al) auto

lemma loop_distinct:
  "distinct (map fst row) \<Longrightarrow> fst ` set row \<inter> fst ` set acc = {} \<Longrightarrow>
   ConvertJsonElementsToValues_loop row acc = acc @ map (\<lambda>(k, c). (k, convert_cell c)) row"
proof (induction row arbitrary: acc)
  case Nil
  then show ?case by simp
next
  case (Cons kc row)
  obtain k c where kc: "kc = (k, c)" by (cases kc)
  have fresh: "k \<notin> fst ` set acc" using Cons.prems(2) by (auto simp: kc)
  have d: "distinct (map fst row)" using Cons.prems(1) by simp
  have "fst ` set row \<inter> fst ` set (acc @ [(k, convert_cell c)]) = {}"
    using Cons.prems by (auto simp: kc)
  from Cons.IH [OF d this] show ?case by (simp add: kc update_fresh [OF fresh])
qed

lemma ConvertJsonElementsToValues_distinct:
  "distinct (map fst row) \<Longrightarrow>
   ConvertJsonElementsToValues row = map (\<lambda>(k, c). (k, convert_cell c)) row"
  by (simp add: ConvertJsonElementsToValues_def loop_distinct)

lemma SaveExcelDataAsync_rows:
  assumes "SaveExcelDataAsync lib env db uploadData = Some (Inr response, db')"
    and "sd \<in> set (SheetData db')" "sd \<notin> set (SheetData db)"
  shows "written lib (upload_rows uploadData) sd"
proof (cases "find (\<lambda>s. session_FileHash s = Some (CalculateFileHash lib uploadData))
                (ImportSessions db)")
  case (Some existing)
  from SaveExcelDataAsync_duplicate [OF Some, of env] assms show ?thesis by simp
next
  case None
  from assms(1) have "transactional_import lib env db uploadData
                        (CalculateFileHash lib uploadData) = Some (Inr response, db')"
    by (simp add: SaveExcelDataAsync_new [OF None])
  from transactional_import_Inr [OF this] obtain u' where
    run: "import_transaction lib env uploadData (CalculateFileHash lib uploadData) (begun db)
            = Some (Inr (response, u'))"
    and db': "db' = database u'"
    by blast
  have "tracked (begun db) = []" "database (begun db) = db"
    by (simp_all add: begun_def)
  from import_transaction_commit(2) [OF run this] assms(2,3) show ?thesis
    by (auto simp: db')
qed

text \<open>
  Claim C9. No value of a converted row is \<open>null\<close>; a field whose incoming value is
  null or undefined is stored as \<open>"N/A"\<close>; and every row a successful upload adds to the
  database is the serialization of the converted form of a row of the upload.
\<close>

theorem persisted_rows_have_no_null:
  "((k, v) \<in> set (ConvertJsonElementsToValues row) \<longrightarrow> v \<noteq> VNull) \<and>
   (distinct (map fst row) \<and> (k, c) \<in> set row \<and>
    (c = CElement ENull \<or> c = CElement EUndefined \<or> c = CObject VNull) \<longrightarrow>
      (k, VString ''N/A'') \<in> set (ConvertJsonElementsToValues row)) \<and>
   (SaveExcelDataAsync lib env db uploadData = Some (Inr response, db') \<and>
    sd \<in> set (SheetData db') \<and> sd \<notin> set (SheetData db) \<longrightarrow>
      (\<exists>row' \<in> upload_rows uploadData.
         row_RowData sd = SerializeObject_row lib (ConvertJsonElementsToValues row') \<and>
         (\<forall>(k', v') \<in> set (ConvertJsonElementsToValues row'). v' \<noteq> VNull)))"
proof (intro conjI impI)
  have nn: "\<And>r. \<forall>(k, v) \<in> set (ConvertJsonElementsToValues r). v \<noteq> VNull"
    unfolding ConvertJsonElementsToValues_def by (rule loop_not_null) simp
  {
    assume "(k, v) \<in> set (ConvertJsonElementsToValues row)"
    with nn [of row] show "v \<noteq> VNull" by auto
  }
  {
    assume a: "distinct (map fst row) \<and> (k, c) \<in> set row \<and>
      (c = CElement ENull \<or> c = CElement EUndefined \<or> c = CObject VNull)"
    then have "convert_cell c = VString ''N/A''"
      by (auto simp: convert_cell_def or_NA_def)
    moreover from a have "(k, convert_cell c) \<in> set (ConvertJsonElementsToValues row)"
      by (force simp: ConvertJsonElementsToValues_distinct)
    ultimately show "(k, VString ''N/A'') \<in> set (ConvertJsonElementsToValues row)" by simp
  }
  {
    assume "SaveExcelDataAsync lib env db uploadData = Some (Inr response, db') \<and>
      sd \<in> set (SheetData db') \<and> sd \<notin> set (SheetData db)"
    then have "written lib (upload_rows uploadData) sd"
      using SaveExcelDataAsync_rows by blast
    with nn show "\<exists>row' \<in> upload_rows uploadData.
         row_RowData sd = SerializeObject_row lib (ConvertJsonElementsToValues row') \<and>
         (\<forall>(k', v') \<in> set (ConvertJsonElementsToValues row'). v' \<noteq> VNull)"
      by (auto simp: written_def)
  }
qed

section \<open>Examples\<close>

lemma example_db_no_hash:
  "find (\<lambda>s. session_FileHash s = Some h) (ImportSessions example_db) = None"
  by (simp add: example_db_def example_session_def)

lemma example_transaction:
  "transactional_import example_lib example_env example_db example_upload h =
     Some (Inr example_response, example_db_after h)"
  by code_simp



lemma example_first_upload:
  "SaveExcelDataAsync example_lib example_env example_db example_upload =
     Some (Inr example_response,
           example_db_after (CalculateFileHash example_lib example_upload))"
  by (simp add: SaveExcelDataAsync_new [OF example_db_no_hash] example_transaction)




lemma example_pages:
  "GetSessionsAsync example_sessions105 1 20 = Inr (projr (GetSessionsAsync example_sessions105 1 20))"
  "GetSessionsAsync example_sessions105 5 20 = Inr (projr (GetSessionsAsync example_sessions105 5 20))"
  "GetSessionsAsync example_sessions105 6 20 = Inr (projr (GetSessionsAsync example_sessions105 6 20))"
  by code_simp+

lemma example_search_result:
  "SearchDataAsync example_lib example_db example_search =
     Inr (projr (SearchDataAsync example_lib example_db example_search))"
  by code_simp

theorem page_metadata_witness:
  "TotalRecords (projr (GetSessionsAsync example_sessions105 1 20)) = 105 \<and>
   TotalPages (projr (GetSessionsAsync example_sessions105 1 20)) = 6 \<and>
   HasNextPage (projr (GetSessionsAsync example_sessions105 1 20)) \<and>
   \<not> HasPreviousPage (projr (GetSessionsAsync example_sessions105 1 20)) \<and>
   HasNextPage (projr (GetSessionsAsync example_sessions105 5 20)) \<and>
   HasPreviousPage (projr (GetSessionsAsync example_sessions105 5 20)) \<and>
   \<not> HasNextPage (projr (GetSessionsAsync example_sessions105 6 20)) \<and>
   HasPreviousPage (projr (GetSessionsAsync example_sessions105 6 20)) \<and>
   TotalRecords (projr (SearchDataAsync example_lib example_db example_search)) = 3 \<and>
   TotalPages (projr (SearchDataAsync example_lib example_db example_search)) = 2 \<and>
   HasNextPage (projr (SearchDataAsync example_lib example_db example_search)) \<and>
   \<not> HasPreviousPage (projr (SearchDataAsync example_lib example_db example_search))"
proof -
  have n: "int (length (ImportSessions example_sessions105)) = 105"
    by (simp add: example_sessions105_def)
  have m: "int (length (search_query example_db example_search)) = 3"
    by code_simp
  have s: "search_PageSize example_search = 2" "PageNumber example_search = 1"
    by (simp_all add: example_search_def)
  show ?thesis
    using
      page_metadata [where s = 20 and db = example_sessions105 and p = 1
        and r = "projr (GetSessionsAsync example_sessions105 1 20)", THEN conjunct1]
      page_metadata [where s = 20 and db = example_sessions105 and p = 5
        and r = "projr (GetSessionsAsync example_sessions105 5 20)", THEN conjunct1]
      page_metadata [where s = 20 and db = example_sessions105 and p = 6
        and r = "projr (GetSessionsAsync example_sessions105 6 20)", THEN conjunct1]
      page_metadata [where req = example_search and lib = example_lib and db = example_db
        and r' = "projr (SearchDataAsync example_lib example_db example_search)", THEN conjunct2]
      example_pages example_search_result n m s
    by simp
qed

theorem search_ordering_witness:
  "sorted_wrt (\<lambda>x y. result_ImportedAt y \<le> result_ImportedAt x)
     (page_Data (projr (SearchDataAsync example_lib example_db example_search))) \<and>
   map (\<lambda>x. (result_ImportedAt x, result_SheetName x, result_RowIndex x))
     (page_Data (projr (SearchDataAsync example_lib example_db example_search))) =
     [(200, ''Data'', 0), (100, ''Data'', 0)] \<and>
   map row_Id (SheetData example_db) = [101, 100, 200] \<and>
   (\<exists>rows'. search_page (example_db\<lparr>SheetData := rev (SheetData example_db)\<rparr>) example_search
              = Inr rows' \<and>
            map search_key rows' = [(- 200, 0, 0), (- 100, 0, 0)])"
proof -
  have "sorted_wrt (\<lambda>x y. result_ImportedAt y \<le> result_ImportedAt x)
     (page_Data (projr (SearchDataAsync example_lib example_db example_search)))"
    using search_ordering [THEN conjunct1, rule_format, OF example_search_result] by blast
  moreover have "map (\<lambda>x. (result_ImportedAt x, result_SheetName x, result_RowIndex x))
     (page_Data (projr (SearchDataAsync example_lib example_db example_search))) =
     [(200, ''Data'', 0), (100, ''Data'', 0)]"
    by code_simp
  moreover have "map row_Id (SheetData example_db) = [101, 100, 200]"
    by (simp add: example_db_def)
  moreover have "\<exists>rows'. search_page (example_db\<lparr>SheetData := rev (SheetData example_db)\<rparr>)
                    example_search = Inr rows' \<and>
            map search_key rows' = [(- 200, 0, 0), (- 100, 0, 0)]"
  proof -
    have p: "search_page example_db example_search =
               Inr (projr (search_page example_db example_search))"
      by code_simp
    have k: "map search_key (projr (search_page example_db example_search)) =
               [(- 200, 0, 0), (- 100, 0, 0)]"
      by code_simp
    have "mset (SheetData (example_db\<lparr>SheetData := rev (SheetData example_db)\<rparr>)) =
            mset (SheetData example_db) \<and>
          Sheets (example_db\<lparr>SheetData := rev (SheetData example_db)\<rparr>) = Sheets example_db \<and>
          ImportSessions (example_db\<lparr>SheetData := rev (SheetData example_db)\<rparr>) =
            ImportSessions example_db \<and>
          search_page example_db example_search =
            Inr (projr (search_page example_db example_search))"
      using p by simp
    from search_ordering [THEN conjunct2, rule_format, OF this] k show ?thesis by simp
  qed
  ultimately show ?thesis by blast
qed

lemma example_sheet10:
  "find (\<lambda>s. sheet_Id s = 10) (Sheets example_db) =
     Some \<lparr> sheet_Id = 10, sheet_SessionId = 1, sheet_SheetName = ''Data'', sheet_SheetIndex = 0,
            sheet_RowCount = 2, sheet_ColumnCount = 2,
            sheet_Headers = ''[\"Name\",\"Date Of Birth\"]'' \<rparr>"
  by (simp add: example_db_def)

lemma example_sheet11:
  "find (\<lambda>s. sheet_Id s = 11) (Sheets example_db) =
     Some \<lparr> sheet_Id = 11, sheet_SessionId = 1, sheet_SheetName = ''Blank'', sheet_SheetIndex = 1,
            sheet_RowCount = 0, sheet_ColumnCount = 2, sheet_Headers = ''[\"Name\",\"\"]'' \<rparr>"
  by (simp add: example_db_def)

lemma example_headers:
  "DeserializeObject_ListString example_lib ''[\"Name\",\"Date Of Birth\"]'' =
     Inr (Some [Some ''Name'', Some ''Date Of Birth''])"
  "DeserializeObject_ListString example_lib ''[\"Name\",\"\"]'' = Inr (Some [Some ''Name'', Some []])"
  by (simp_all add: example_lib_def)





theorem detail_faults_on_empty_header_witness:
  "GetSheetDetailAsync example_lib example_db 11 = Inl IndexOutOfRangeException \<and>
   (\<exists>e. GetSessionDataAsync example_lib example_db 1 = Inl e) \<and>
   (\<exists>dto. GetSheetDetailAsync example_lib example_db 10 = Inr (Some dto))"
proof -
  let ?s11 = "\<lparr> sheet_Id = 11, sheet_SessionId = 1, sheet_SheetName = ''Blank'',
      sheet_SheetIndex = 1, sheet_RowCount = 0, sheet_ColumnCount = 2,
      sheet_Headers = ''[\"Name\",\"\"]'' \<rparr>"
  let ?s10 = "\<lparr> sheet_Id = 10, sheet_SessionId = 1, sheet_SheetName = ''Data'',
      sheet_SheetIndex = 0, sheet_RowCount = 2, sheet_ColumnCount = 2,
      sheet_Headers = ''[\"Name\",\"Date Of Birth\"]'' \<rparr>"
  have h11: "DeserializeObject_ListString example_lib (sheet_Headers ?s11) =
               Inr (Some [Some ''Name'', Some []])"
    by (simp add: example_headers)
  have h10: "DeserializeObject_ListString example_lib (sheet_Headers ?s10) =
               Inr (Some [Some ''Name'', Some ''Date Of Birth''])"
    by (simp add: example_headers)
  have e: "Some [] \<in> set [Some ''Name'', Some []]" by simp
  have f1: "find (\<lambda>s. session_Id s = 1) (ImportSessions example_db) =
              Some (example_session 1 ''a.xlsx'' 100)"
    by (simp add: example_db_def example_session_def)
  have m: "?s11 \<in> set (Sheets example_db)" "sheet_SessionId ?s11 = 1"
    by (simp_all add: example_db_def)
  have ok: "\<forall>h \<in> set [Some ''Name'', Some ''Date Of Birth'']. h \<noteq> None \<and> h \<noteq> Some []"
    by simp
  note t = detail_faults_on_empty_header
      [where lib = example_lib and db = example_db and sheetId = 11 and sheet = ?s11
         and stored = "[Some ''Name'', Some []]" and sessionId = 1
         and session = "example_session 1 ''a.xlsx'' 100" and s = ?s11
         and stored' = "[Some ''Name'', Some []]"]
  note t10 = detail_faults_on_empty_header
      [where lib = example_lib and db = example_db and sheetId = 10 and sheet = ?s10
         and stored = "[Some ''Name'', Some ''Date Of Birth'']"]
  have "\<exists>e. GetSheetDetailAsync example_lib example_db 11 = Inl e \<and>
           (e = IndexOutOfRangeException \<or> e = NullReferenceException)"
    using t example_sheet11 h11 e by blast
  moreover have "GetSheetDetailAsync example_lib example_db 11 = Inl IndexOutOfRangeException"
    by code_simp
  moreover have "\<exists>e. GetSessionDataAsync example_lib example_db 1 = Inl e"
    using t f1 m h11 e by blast
  moreover have "\<exists>dto. GetSheetDetailAsync example_lib example_db 10 = Inr (Some dto)"
    using t10 example_sheet10 h10 ok by blast
  ultimately show ?thesis by blast
qed

theorem row_decode_never_raises_witness:
  "ConvertLegacyData example_lib ''{broken'' = [] \<and>
   (\<exists>dto. GetSheetDetailAsync example_lib example_db 10 = Inr (Some dto) \<and>
          sheetDetail_Data dto = [[(''Name'', VString ''Acme'')], []]) \<and>
   (\<exists>r. SearchDataAsync example_lib example_db (example_search\<lparr>PageNumber := 2\<rparr>) = Inr r \<and>
        map result_RowData (page_Data r) = [[]])"
proof -
  let ?s10 = "\<lparr> sheet_Id = 10, sheet_SessionId = 1, sheet_SheetName = ''Data'',
      sheet_SheetIndex = 0, sheet_RowCount = 2, sheet_ColumnCount = 2,
      sheet_Headers = ''[\"Name\",\"Date Of Birth\"]'' \<rparr>"
  let ?req = "example_search\<lparr>PageNumber := 2\<rparr>"
  have p: "JObject_Parse example_lib ''{broken'' = Inl JsonReaderException"
    by (simp add: example_lib_def)
  have t: "ConvertLegacyData_try example_lib ''{broken'' = Inl JsonReaderException"
    by (simp add: ConvertLegacyData_try_def p)
  have h: "headers_out example_lib (sheet_Headers ?s10) = Inr [''name'', ''date Of Birth'']"
    by code_simp
  have sp: "search_page example_db ?req = Inr (projr (search_page example_db ?req))"
    by code_simp
  note r = row_decode_never_raises
      [where lib = example_lib and jsonString = "''{broken''" and e = JsonReaderException
         and e' = JsonReaderException and db = example_db and sheetId = 10 and sheet = ?s10
         and hs = "[''name'', ''date Of Birth'']" and searchRequest = ?req
         and rows = "projr (search_page example_db ?req)"]
  have a: "ConvertLegacyData example_lib ''{broken'' = []" using r p by blast
  have "\<exists>dto. GetSheetDetailAsync example_lib example_db 10 = Inr (Some dto) \<and>
             sheetDetail_Data dto =
               map (\<lambda>sd. ConvertLegacyData example_lib (row_RowData sd))
                 (sort_key row_RowIndex (sheet_SheetDataRows example_db 10))"
    using r example_sheet10 h by blast
  moreover have "map (\<lambda>sd. ConvertLegacyData example_lib (row_RowData sd))
                 (sort_key row_RowIndex (sheet_SheetDataRows example_db 10)) =
               [[(''Name'', VString ''Acme'')], []]"
    by code_simp
  ultimately have b: "\<exists>dto. GetSheetDetailAsync example_lib example_db 10 = Inr (Some dto) \<and>
          sheetDetail_Data dto = [[(''Name'', VString ''Acme'')], []]"
    by simp
  have "\<exists>r. SearchDataAsync example_lib example_db ?req = Inr r \<and>
           page_Data r = map (search_result example_lib) (projr (search_page example_db ?req))"
    using r sp by blast
  moreover have "map result_RowData
       (map (search_result example_lib) (projr (search_page example_db ?req))) = [[]]"
    by code_simp
  ultimately have c: "\<exists>r. SearchDataAsync example_lib example_db ?req = Inr r \<and>
        map result_RowData (page_Data r) = [[]]"
    by auto
  from a b c show ?thesis by blast
qed

theorem persisted_rows_have_no_null_witness:
  "(''Note'', VString ''N/A'') \<in> set (ConvertJsonElementsToValues example_row) \<and>
   VString ''N/A'' \<noteq> VNull \<and>
   (\<exists>row' \<in> upload_rows example_upload.
      ''{\"Name\":\"Acme\",\"Amount\":100.0,\"Note\":\"N/A\"}'' =
        SerializeObject_row example_lib (ConvertJsonElementsToValues row') \<and>
      (\<forall>(k', v') \<in> set (ConvertJsonElementsToValues row'). v' \<noteq> VNull))"
proof -
  let ?sd = "\<lparr> row_Id = 1003, row_SheetId = 1002, row_RowIndex = 0,
            row_RowData = ''{\"Name\":\"Acme\",\"Amount\":100.0,\"Note\":\"N/A\"}'' \<rparr>"
  let ?h = "CalculateFileHash example_lib example_upload"
  have d: "distinct (map fst example_row) \<and> (''Note'', CElement ENull) \<in> set example_row \<and>
      (CElement ENull = CElement ENull \<or> CElement ENull = CElement EUndefined \<or>
       CElement ENull = CObject VNull)"
    by (simp add: example_row_def)
  have new: "?sd \<in> set (SheetData (example_db_after ?h))" "?sd \<notin> set (SheetData example_db)"
    by (simp_all add: example_db_after_def example_db_def)
  note t = persisted_rows_have_no_null
      [where row = example_row and k = "''Note''" and c = "CElement ENull"
         and v = "VString ''N/A''" and lib = example_lib and env = example_env
         and db = example_db and uploadData = example_upload and response = example_response
         and db' = "example_db_after ?h" and sd = ?sd]
  have a: "(''Note'', VString ''N/A'') \<in> set (ConvertJsonElementsToValues example_row)"
    using t d by blast
  then have b: "VString ''N/A'' \<noteq> VNull" using t by blast
  have "\<exists>row' \<in> upload_rows example_upload.
         row_RowData ?sd = SerializeObject_row example_lib (ConvertJsonElementsToValues row') \<and>
         (\<forall>(k', v') \<in> set (ConvertJsonElementsToValues row'). v' \<noteq> VNull)"
    using t example_first_upload new by blast
  with a b show ?thesis by simp
qed

end
